theory Spec2Isabelle
  imports Complex_Main
begin

section \<open>Python values and built-ins used by the code\<close>

text \<open>
  A Python \<open>str\<close> is modelled as a \<open>string\<close>: a list of characters, each character a
  code point below 256. The exceptions that the modelled code can meet are the
  constructors of \<open>error\<close>; \<open>RequestError\<close> stands for whatever the completion client
  raises (network failure, an empty choice list, a missing message content).
\<close>

datatype error =
    RequestError
  | JSONDecodeError
  | AttributeError
  | TypeError
  | ValueError
  | IndexError
  | OverflowError
  | IntegrityError

text \<open>\<open>str.isspace\<close> on one character, for the code points below 256.\<close>

definition isspace :: "char \<Rightarrow> bool" where
  "isspace c = (let n = (of_char c :: nat) in
     (9 \<le> n \<and> n \<le> 13) \<or> (28 \<le> n \<and> n \<le> 32) \<or> n = 133 \<or> n = 160)"

text \<open>\<open>s.strip()\<close>: leading and trailing whitespace removed.\<close>

definition py_strip :: "string \<Rightarrow> string" where
  "py_strip s = rev (dropWhile isspace (rev (dropWhile isspace s)))"

text \<open>\<open>s.startswith(p)\<close>.\<close>

definition startswith :: "string \<Rightarrow> string \<Rightarrow> bool" where
  "startswith s p = (take (length p) s = p)"

text \<open>\<open>sub in s\<close>: some suffix of \<open>s\<close> starts with \<open>sub\<close>.\<close>

fun py_in :: "string \<Rightarrow> string \<Rightarrow> bool" where
  "py_in sub [] = (sub = [])"
| "py_in sub (c # cs) = (startswith (c # cs) sub \<or> py_in sub cs)"

text \<open>
  \<open>s.split(sep)\<close> scans from the left and cuts at every non-overlapping occurrence
  of \<open>sep\<close>; \<open>acc\<close> is the piece collected so far. An empty separator raises
  \<open>ValueError\<close>.
\<close>

function split_from :: "string \<Rightarrow> string \<Rightarrow> string \<Rightarrow> string list" where
  "split_from sep acc [] = [acc]"
| "split_from sep acc (c # cs) =
     (if sep \<noteq> [] \<and> startswith (c # cs) sep
      then acc # split_from sep [] (drop (length sep) (c # cs))
      else split_from sep (acc @ [c]) cs)"
  by pat_completeness auto
termination
  by (relation "measure (\<lambda>(sep, acc, s). length s)") auto

definition py_split :: "string \<Rightarrow> string \<Rightarrow> error + string list" where
  "py_split s sep = (if sep = [] then Inl ValueError else Inr (split_from sep [] s))"

text \<open>\<open>xs[i]\<close> for an index that is not negative.\<close>

definition py_index :: "'a list \<Rightarrow> nat \<Rightarrow> error + 'a" where
  "py_index xs i = (if i < length xs then Inr (xs ! i) else Inl IndexError)"

text \<open>
  \<open>s.replace(old, new)\<close>: every non-overlapping occurrence of \<open>old\<close>, found from the
  left, is replaced. With an empty \<open>old\<close> Python puts \<open>new\<close> before every character
  and at the end.
\<close>

function replace_from :: "string \<Rightarrow> string \<Rightarrow> string \<Rightarrow> string" where
  "replace_from old new [] = []"
| "replace_from old new (c # cs) =
     (if old \<noteq> [] \<and> startswith (c # cs) old
      then new @ replace_from old new (drop (length old) (c # cs))
      else c # replace_from old new cs)"
  by pat_completeness auto
termination
  by (relation "measure (\<lambda>(old, new, s). length s)") auto

definition py_replace :: "string \<Rightarrow> string \<Rightarrow> string \<Rightarrow> string" where
  "py_replace s old new =
     (if old = [] then new @ concat (map (\<lambda>c. c # new) s) else replace_from old new s)"

subsection \<open>Decoded JSON\<close>

text \<open>
  A Python \<open>float\<close> is a finite binary fraction, an infinity or a NaN. The values that
  \<open>json.loads\<close> can return are the constructors of \<open>json\<close>; an object is a \<open>dict\<close>, kept
  as an association list in which the first binding of a key is the one looked up.
\<close>

datatype pyfloat = Finite rat | PosInf | NegInf | NaN

datatype json =
    JNull
  | JBool bool
  | JInt int
  | JFloat pyfloat
  | JStr string
  | JArr "json list"
  | JObj "(string \<times> json) list"

text \<open>\<open>d.get(key, default)\<close> on a \<open>dict\<close>.\<close>

definition dict_get :: "(string \<times> json) list \<Rightarrow> string \<Rightarrow> json \<Rightarrow> json" where
  "dict_get d k dflt = (case map_of d k of None \<Rightarrow> dflt | Some v \<Rightarrow> v)"

text \<open>
  \<open>data.get(key, default)\<close> on a decoded value: only a \<open>dict\<close> has the method, every
  other value raises \<open>AttributeError\<close>.
\<close>

fun py_get :: "json \<Rightarrow> string \<Rightarrow> json \<Rightarrow> error + json" where
  "py_get (JObj d) k dflt = Inr (dict_get d k dflt)"
| "py_get v k dflt = Inl AttributeError"

text \<open>
  \<open>int(s)\<close> on a \<open>str\<close> (CPython, \<open>PyLong_FromUnicodeObject\<close> and \<open>PyLong_FromString\<close>
  with base 10). Whitespace is skipped before and after the number; it is the ASCII
  whitespace of \<open>Py_ISSPACE\<close> (codes 9 to 13 and 32) and, because a string that is not
  ASCII has its Unicode whitespace turned into spaces first, codes 133 and 160; the
  separators 28 to 31, which \<open>str.strip()\<close> drops, are not skipped here and make the
  conversion fail. Then one sign is allowed, then decimal digits with single
  underscores between digits. More than 4300 digits are refused (the interpreter's
  default limit \<open>sys.int_max_str_digits\<close>). Every failure is a \<open>ValueError\<close>.
\<close>

definition isdigit :: "char \<Rightarrow> bool" where
  "isdigit c = (let n = (of_char c :: nat) in 48 \<le> n \<and> n \<le> 57)"

definition int_space :: "char \<Rightarrow> bool" where
  "int_space c = (let n = (of_char c :: nat) in (9 \<le> n \<and> n \<le> 13) \<or> n = 32 \<or> n = 133 \<or> n = 160)"

definition int_strip :: "string \<Rightarrow> string" where
  "int_strip s = rev (dropWhile int_space (rev (dropWhile int_space s)))"

fun digits_ok :: "string \<Rightarrow> bool" where
  "digits_ok [] = False"
| "digits_ok [c] = isdigit c"
| "digits_ok (c # d # cs) =
     (isdigit c \<and> (if d = CHR ''_'' then digits_ok cs else digits_ok (d # cs)))"

definition digits_value :: "string \<Rightarrow> int" where
  "digits_value ds = foldl (\<lambda>v c. 10 * v + (int (of_char c) - 48)) 0 ds"

definition max_str_digits :: nat where
  "max_str_digits = 4300"

definition int_of_str :: "string \<Rightarrow> error + int" where
  "int_of_str s =
     (let t = int_strip s;
          neg = (t \<noteq> [] \<and> hd t = CHR ''-'');
          ds = (if t \<noteq> [] \<and> (hd t = CHR ''-'' \<or> hd t = CHR ''+'') then tl t else t);
          digits = filter (\<lambda>c. c \<noteq> CHR ''_'') ds
      in if digits_ok ds \<and> length digits \<le> max_str_digits
         then Inr ((if neg then - 1 else 1) * digits_value digits)
         else Inl ValueError)"

text \<open>\<open>int(v)\<close> on a decoded value; a float is truncated towards zero.\<close>

fun py_int :: "json \<Rightarrow> error + int" where
  "py_int (JInt n) = Inr n"
| "py_int (JBool b) = Inr (if b then 1 else 0)"
| "py_int (JFloat (Finite r)) = Inr (if 0 \<le> r then \<lfloor>r\<rfloor> else \<lceil>r\<rceil>)"
| "py_int (JFloat NaN) = Inl ValueError"
| "py_int (JFloat PosInf) = Inl OverflowError"
| "py_int (JFloat NegInf) = Inl OverflowError"
| "py_int (JStr s) = int_of_str s"
| "py_int JNull = Inl TypeError"
| "py_int (JArr xs) = Inl TypeError"
| "py_int (JObj d) = Inl TypeError"

section \<open>The structured extractor (app.py)\<close>

text \<open>
  The classes \<open>Resume\<close> and \<open>JobDescription\<close> are plain data classes: the constructor
  stores its arguments. Python does not check the declared field types, so a field
  filled from the decoded response holds whatever value the response had there.
\<close>

record Resume =
  Resume_id :: string
  Resume_name :: json
  Resume_email :: json
  Resume_phone :: json
  Resume_skills :: json
  Resume_experience :: json
  Resume_education :: json
  Resume_summary :: json

record JobDescription =
  Job_title :: json
  Job_company :: json
  Job_required_skills :: json
  Job_preferred_skills :: json
  Job_experience_years :: int
  Job_responsibilities :: json
  Job_qualifications :: json
  Job_description :: json

text \<open>
  Sequencing inside a \<open>try\<close> block: the first exception ends the block.
\<close>

definition and_then :: "error + 'a \<Rightarrow> ('a \<Rightarrow> error + 'b) \<Rightarrow> error + 'b" where
  "and_then r f = (case r of Inl e \<Rightarrow> Inl e | Inr x \<Rightarrow> f x)"

text \<open>The fence of a Markdown code block: three backquotes.\<close>

definition fence :: string where
  "fence = replicate 3 (CHR 0x60)"

text \<open>
  The lines between reading the response and \<open>json.loads\<close>, shared by both functions:
  the text inside a fenced block tagged \<open>json\<close>, else inside a plain fenced block, else
  the whole text.
\<close>

definition extract_json_text :: "string \<Rightarrow> error + string" where
  "extract_json_text result_text =
     (if py_in (fence @ ''json'') result_text then
        and_then (py_split result_text (fence @ ''json'')) (\<lambda>ps.
        and_then (py_index ps 1) (\<lambda>p.
        and_then (py_split p fence) (\<lambda>qs.
        and_then (py_index qs 0) (\<lambda>q. Inr (py_strip q)))))
      else if py_in fence result_text then
        and_then (py_split result_text fence) (\<lambda>ps.
        and_then (py_index ps 1) (\<lambda>p.
        and_then (py_split p fence) (\<lambda>qs.
        and_then (py_index qs 0) (\<lambda>q. Inr (py_strip q)))))
      else Inr result_text)"

text \<open>
  The outcome of the completion request, up to \<open>response.choices[0].message.content\<close>,
  is an input of the model: \<open>Inl e\<close> when any of it raised, \<open>Inr content\<close> otherwise.
  \<open>json.loads\<close> is the standard library's decoder, also an input: a function from the
  text to the decoded value or to the exception it raises.
\<close>

type_synonym loads = "string \<Rightarrow> error + json"

text \<open>
  For examples: a text between double quotes, and a decoder that is known at one
  document only (it returns the value \<open>json.loads\<close> returns there, and reports every
  other text as undecodable).
\<close>

definition quoted :: "string \<Rightarrow> string" where
  "quoted s = CHR 0x22 # s @ [CHR 0x22]"

definition loads_at :: "string \<Rightarrow> json \<Rightarrow> loads" where
  "loads_at doc v s = (if s = doc then Inr v else Inl JSONDecodeError)"

text \<open>The \<open>try\<close> block of \<open>parse_resume_with_ai\<close>.\<close>

definition parse_resume_try ::
  "loads \<Rightarrow> error + string \<Rightarrow> string \<Rightarrow> string \<Rightarrow> error + Resume" where
  "parse_resume_try json_loads response text filename =
     and_then response (\<lambda>content.
      and_then (extract_json_text (py_strip content)) (\<lambda>result_text.
      and_then (json_loads result_text) (\<lambda>data.
      and_then (py_get data ''name'' (JStr ''Candidate'')) (\<lambda>name.
      and_then (py_get data ''email'' (JStr '''')) (\<lambda>email.
      and_then (py_get data ''phone'' (JStr '''')) (\<lambda>phone.
      and_then (py_get data ''skills'' (JArr [])) (\<lambda>skills.
      and_then (py_get data ''experience'' (JArr [])) (\<lambda>experience.
      and_then (py_get data ''education'' (JArr [])) (\<lambda>education.
      and_then (py_get data ''summary'' (JStr (take 300 text))) (\<lambda>summary.
      Inr \<lparr> Resume_id = py_replace filename ''.'' ''_'',
            Resume_name = name,
            Resume_email = email,
            Resume_phone = phone,
            Resume_skills = skills,
            Resume_experience = experience,
            Resume_education = education,
            Resume_summary = summary \<rparr>))))))))))"

text \<open>The record built in the \<open>except\<close> block of \<open>parse_resume_with_ai\<close>.\<close>

definition resume_fallback :: "string \<Rightarrow> string \<Rightarrow> Resume" where
  "resume_fallback text filename =
     \<lparr> Resume_id = py_replace filename ''.'' ''_'',
       Resume_name = JStr (py_replace (py_replace (py_replace (py_replace filename
                        ''_'' '' '') ''.pdf'' '''') ''.docx'' '''') ''.txt'' ''''),
       Resume_email = JStr '''',
       Resume_phone = JStr '''',
       Resume_skills = JArr [],
       Resume_experience = JArr [],
       Resume_education = JArr [],
       Resume_summary = JStr (if length text > 300 then take 300 text else text) \<rparr>"

definition parse_resume_with_ai ::
  "loads \<Rightarrow> error + string \<Rightarrow> string \<Rightarrow> string \<Rightarrow> Resume" where
  "parse_resume_with_ai json_loads response text filename =
     (case parse_resume_try json_loads response text filename of
        Inr r \<Rightarrow> r
      | Inl e \<Rightarrow> resume_fallback text filename)"

text \<open>The \<open>try\<close> block of \<open>parse_job_description_with_ai\<close>.\<close>

definition parse_job_try :: "loads \<Rightarrow> error + string \<Rightarrow> string \<Rightarrow> error + JobDescription" where
  "parse_job_try json_loads response text =
     and_then response (\<lambda>content.
      and_then (extract_json_text (py_strip content)) (\<lambda>result_text.
      and_then (json_loads result_text) (\<lambda>data.
      and_then (py_get data ''title'' (JStr ''Position'')) (\<lambda>title.
      and_then (py_get data ''company'' (JStr ''Company'')) (\<lambda>company.
      and_then (py_get data ''required_skills'' (JArr [])) (\<lambda>required.
      and_then (py_get data ''preferred_skills'' (JArr [])) (\<lambda>preferred.
      and_then (py_get data ''experience_years'' (JInt 0)) (\<lambda>years.
      and_then (py_int years) (\<lambda>experience_years.
      and_then (py_get data ''responsibilities'' (JArr [])) (\<lambda>resp.
      and_then (py_get data ''qualifications'' (JArr [])) (\<lambda>quals.
      and_then (py_get data ''description'' (JStr text)) (\<lambda>description.
      Inr \<lparr> Job_title = title,
            Job_company = company,
            Job_required_skills = required,
            Job_preferred_skills = preferred,
            Job_experience_years = experience_years,
            Job_responsibilities = resp,
            Job_qualifications = quals,
            Job_description = description \<rparr>))))))))))))"

definition job_fallback :: "string \<Rightarrow> JobDescription" where
  "job_fallback text =
     \<lparr> Job_title = JStr ''Position'',
       Job_company = JStr ''Company'',
       Job_required_skills = JArr [],
       Job_preferred_skills = JArr [],
       Job_experience_years = 0,
       Job_responsibilities = JArr [],
       Job_qualifications = JArr [],
       Job_description = JStr text \<rparr>"

definition parse_job_description_with_ai ::
  "loads \<Rightarrow> error + string \<Rightarrow> string \<Rightarrow> JobDescription" where
  "parse_job_description_with_ai json_loads response text =
     (case parse_job_try json_loads response text of
        Inr j \<Rightarrow> j
      | Inl e \<Rightarrow> job_fallback text)"

text \<open>Two example responses: objects with a text where the schema asks for a list.\<close>

definition skills_doc :: string where
  "skills_doc = ''{'' @ quoted ''skills'' @ '': '' @ quoted ''python'' @ ''}''"

definition required_doc :: string where
  "required_doc = ''{'' @ quoted ''required_skills'' @ '': '' @ quoted ''python'' @ ''}''"

section \<open>The session store (database.py)\<close>

subsection \<open>The text of the collection columns\<close>

text \<open>
  \<open>json.dumps\<close> and \<open>json.loads\<close> on the values that the store writes to the columns
  \<open>strengths\<close> and \<open>weaknesses\<close>: lists of texts. The encoder is the library's default
  one (ASCII output): inside the double quotes a character outside the printable ASCII
  range, a double quote and a backslash are escaped, the items are separated by a comma
  and a space.
\<close>

definition hexdigit :: "nat \<Rightarrow> char" where
  "hexdigit n = ''0123456789abcdef'' ! n"

definition encode_char :: "char \<Rightarrow> string" where
  "encode_char c =
     (let n = (of_char c :: nat) in
      if c = CHR 0x22 then [CHR 0x5C, CHR 0x22]
      else if c = CHR 0x5C then [CHR 0x5C, CHR 0x5C]
      else if c = CHR 0x0A then [CHR 0x5C, CHR ''n'']
      else if c = CHR 0x0D then [CHR 0x5C, CHR ''r'']
      else if c = CHR 0x09 then [CHR 0x5C, CHR ''t'']
      else if c = CHR 0x08 then [CHR 0x5C, CHR ''b'']
      else if c = CHR 0x0C then [CHR 0x5C, CHR ''f'']
      else if 32 \<le> n \<and> n \<le> 126 then [c]
      else [CHR 0x5C, CHR ''u'', CHR ''0'', CHR ''0'', hexdigit (n div 16), hexdigit (n mod 16)])"

definition encode_str :: "string \<Rightarrow> string" where
  "encode_str s = CHR 0x22 # concat (map encode_char s) @ [CHR 0x22]"

fun join :: "string \<Rightarrow> string list \<Rightarrow> string" where
  "join sep [] = []"
| "join sep [x] = x"
| "join sep (x # y # ys) = x @ sep @ join sep (y # ys)"

definition json_dumps_list :: "string list \<Rightarrow> string" where
  "json_dumps_list xs = ''['' @ join '', '' (map encode_str xs) @ '']''"

text \<open>
  The decoder reads an array of texts. It is the library's decoder on the documents
  of that shape: whitespace is a space, a tab, a line feed or a carriage return; a
  raw control character inside a text is an error; the escapes are the JSON ones.
  An escaped code point from 256 on is outside the characters of this model
  and is reported as an error, and so is every document that is not an array of
  texts.
\<close>

definition json_space :: "char \<Rightarrow> bool" where
  "json_space c = (c = CHR '' '' \<or> c = CHR 0x09 \<or> c = CHR 0x0A \<or> c = CHR 0x0D)"

definition skip_ws :: "string \<Rightarrow> string" where
  "skip_ws s = dropWhile json_space s"

definition hexval :: "char \<Rightarrow> nat option" where
  "hexval c =
     (let n = (of_char c :: nat) in
      if 48 \<le> n \<and> n \<le> 57 then Some (n - 48)
      else if 97 \<le> n \<and> n \<le> 102 then Some (n - 87)
      else if 65 \<le> n \<and> n \<le> 70 then Some (n - 55)
      else None)"

definition hex4 :: "char \<Rightarrow> char \<Rightarrow> char \<Rightarrow> char \<Rightarrow> nat option" where
  "hex4 a b c d =
     (case (hexval a, hexval b, hexval c, hexval d) of
        (Some h, Some i, Some j, Some k) \<Rightarrow> Some (((h * 16 + i) * 16 + j) * 16 + k)
      | _ \<Rightarrow> None)"

definition unescape :: "char \<Rightarrow> char option" where
  "unescape e =
     (if e = CHR 0x22 then Some (CHR 0x22)
      else if e = CHR 0x5C then Some (CHR 0x5C)
      else if e = CHR ''/'' then Some (CHR ''/'')
      else if e = CHR ''b'' then Some (CHR 0x08)
      else if e = CHR ''f'' then Some (CHR 0x0C)
      else if e = CHR ''n'' then Some (CHR 0x0A)
      else if e = CHR ''r'' then Some (CHR 0x0D)
      else if e = CHR ''t'' then Some (CHR 0x09)
      else None)"

definition cons_result :: "char \<Rightarrow> (string \<times> string) option \<Rightarrow> (string \<times> string) option" where
  "cons_result c r = (case r of None \<Rightarrow> None | Some (s, rest) \<Rightarrow> Some (c # s, rest))"

text \<open>
  \<open>scanstring\<close> reads a text after its opening quote and returns it with the input
  that follows the closing quote.
\<close>

fun scanstring :: "string \<Rightarrow> (string \<times> string) option" where
  "scanstring [] = None"
| "scanstring (c # cs) =
     (if c = CHR 0x22 then Some ([], cs)
      else if c = CHR 0x5C then
        (case cs of
           [] \<Rightarrow> None
         | e # r \<Rightarrow>
             if e = CHR ''u'' then
               (case r of
                  h # i # j # k # r' \<Rightarrow>
                    (case hex4 h i j k of
                       None \<Rightarrow> None
                     | Some n \<Rightarrow> if n < 256 then cons_result (char_of n) (scanstring r') else None)
                | _ \<Rightarrow> None)
             else
               (case unescape e of
                  None \<Rightarrow> None
                | Some x \<Rightarrow> cons_result x (scanstring r)))
      else if (of_char c :: nat) < 32 then None
      else cons_result c (scanstring cs))"

text \<open>
  \<open>parse_items\<close> reads the items of a non-empty array, from the opening quote of an
  item to the closing bracket, and returns them with the input that follows.
\<close>

function parse_items :: "string \<Rightarrow> (string list \<times> string) option" where
  "parse_items s =
     (case s of
        [] \<Rightarrow> None
      | q # r \<Rightarrow>
          if q \<noteq> CHR 0x22 then None
          else
            (case scanstring r of
               None \<Rightarrow> None
             | Some (x, r') \<Rightarrow>
                 (case skip_ws r' of
                    [] \<Rightarrow> None
                  | d # r'' \<Rightarrow>
                      if d = CHR '']'' then Some ([x], r'')
                      else if d = CHR '','' then
                        (case parse_items (skip_ws r'') of
                           None \<Rightarrow> None
                         | Some (xs, rest) \<Rightarrow> Some (x # xs, rest))
                      else None)))"
  by pat_completeness auto
termination
proof (relation "measure length")
  show "wf (measure length)"
    by simp
next
  fix s :: string and q r and xr :: "string \<times> string" and x r' d r''
  assume scan: "scanstring r = Some xr" and xr: "(x, r') = xr"
    and skip: "skip_ws r' = d # r''" and s: "s = q # r"
  have shorter: "length rest \<le> length inp" if "scanstring inp = Some (y, rest)" for inp y rest
    using that
  proof (induction inp arbitrary: y rest rule: scanstring.induct)
    case 1
    then show ?case by simp
  next
    case (2 c cs)
    then show ?case
      by (fastforce simp: cons_result_def split: if_splits list.splits option.splits prod.splits)
  qed
  have "length (skip_ws r'') \<le> length r''"
    by (simp add: skip_ws_def length_dropWhile_le)
  moreover have "length (d # r'') \<le> length r'"
    unfolding skip [symmetric] by (simp add: skip_ws_def length_dropWhile_le)
  moreover have "length r' \<le> length r"
    using shorter [of r x r'] scan xr by simp
  ultimately show "(skip_ws r'', s) \<in> measure length"
    using s by simp
qed

definition parse_array :: "string \<Rightarrow> (string list \<times> string) option" where
  "parse_array s =
     (case skip_ws s of
        [] \<Rightarrow> None
      | d # r \<Rightarrow> if d = CHR '']'' then Some ([], r) else parse_items (d # r))"

definition json_loads_list :: "string \<Rightarrow> error + string list" where
  "json_loads_list s =
     (case skip_ws s of
        [] \<Rightarrow> Inl JSONDecodeError
      | b # r \<Rightarrow>
          if b \<noteq> CHR ''['' then Inl JSONDecodeError
          else
            (case parse_array r of
               None \<Rightarrow> Inl JSONDecodeError
             | Some (xs, rest) \<Rightarrow> if skip_ws rest = [] then Inr xs else Inl JSONDecodeError))"

subsection \<open>Tables\<close>

text \<open>
  A table is the list of its rows in the order of insertion. A nullable column is an
  \<open>option\<close>. The timestamp is the clock's reading at the insertion, in seconds.
  \<open>sessions_seq\<close> and \<open>results_seq\<close> are the \<open>AUTOINCREMENT\<close> counters: the largest
  row id each table ever held. The ids that the tables assign are taken as unbounded
  (the end of the 64-bit range of row ids is not modelled).
\<close>

record session_row =
  s_id :: int
  s_job_title :: string
  s_company :: string
  s_timestamp :: nat
  s_is_hidden :: int
  s_total_candidates :: nat

record result_row =
  r_id :: int
  r_session_id :: int
  r_resume_id :: "string option"
  r_candidate_name :: string
  r_overall_score :: "rat option"
  r_skills_match_score :: "rat option"
  r_experience_score :: "rat option"
  r_education_score :: "rat option"
  r_reasoning :: "string option"
  r_strengths :: string
  r_weaknesses :: string
  r_recommendation :: "string option"
  r_rank :: nat

record db =
  sessions :: "session_row list"
  results :: "result_row list"
  sessions_seq :: int
  results_seq :: int

text \<open>\<open>init_database\<close> on a new file: both tables exist and are empty.\<close>

definition init_database :: db where
  "init_database = \<lparr> sessions = [], results = [], sessions_seq = 0, results_seq = 0 \<rparr>"

text \<open>
  One element of the \<open>results\<close> argument of \<open>save_session\<close>: a \<open>dict\<close> read with
  \<open>get\<close>, so a field is \<open>None\<close> when its key is absent.
\<close>

record score_dict =
  d_resume_id :: "string option"
  d_candidate_name :: "string option"
  d_overall_score :: "rat option"
  d_skills_match_score :: "rat option"
  d_experience_score :: "rat option"
  d_education_score :: "rat option"
  d_reasoning :: "string option"
  d_strengths :: "string list option"
  d_weaknesses :: "string list option"
  d_recommendation :: "string option"

text \<open>
  What the two read paths return for a row: the \<open>dict\<close> of the row, with the two
  collection columns replaced by their decoded values.
\<close>

record result_out =
  o_id :: int
  o_session_id :: int
  o_resume_id :: "string option"
  o_candidate_name :: string
  o_overall_score :: "rat option"
  o_skills_match_score :: "rat option"
  o_experience_score :: "rat option"
  o_education_score :: "rat option"
  o_reasoning :: "string option"
  o_strengths :: "string list"
  o_weaknesses :: "string list"
  o_recommendation :: "string option"
  o_rank :: nat

subsection \<open>Operations\<close>

text \<open>\<open>result.get('strengths', [])\<close> and its sibling.\<close>

definition get_list :: "string list option \<Rightarrow> string list" where
  "get_list v = (case v of None \<Rightarrow> [] | Some xs \<Rightarrow> xs)"

text \<open>
  The row that one \<open>INSERT INTO results\<close> of the loop adds: the tuple of the
  statement's values, with the next row id.
\<close>

definition new_row :: "db \<Rightarrow> int \<Rightarrow> nat \<Rightarrow> score_dict \<Rightarrow> string \<Rightarrow> result_row" where
  "new_row cur session_id rank result candidate_name =
     \<lparr> r_id = results_seq cur + 1,
       r_session_id = session_id,
       r_resume_id = d_resume_id result,
       r_candidate_name = candidate_name,
       r_overall_score = d_overall_score result,
       r_skills_match_score = d_skills_match_score result,
       r_experience_score = d_experience_score result,
       r_education_score = d_education_score result,
       r_reasoning = d_reasoning result,
       r_strengths = json_dumps_list (get_list (d_strengths result)),
       r_weaknesses = json_dumps_list (get_list (d_weaknesses result)),
       r_recommendation = d_recommendation result,
       r_rank = rank \<rparr>"

text \<open>
  One pass of the loop. The column \<open>candidate_name\<close> is \<open>NOT NULL\<close>: a \<open>dict\<close>
  without that key makes the statement raise.
\<close>

definition insert_result :: "db \<Rightarrow> int \<Rightarrow> nat \<Rightarrow> score_dict \<Rightarrow> error + db" where
  "insert_result cur session_id rank result =
     (case d_candidate_name result of
        None \<Rightarrow> Inl IntegrityError
      | Some candidate_name \<Rightarrow>
          Inr (cur \<lparr> results := results cur @ [new_row cur session_id rank result candidate_name],
                     results_seq := results_seq cur + 1 \<rparr>))"

text \<open>The loop \<open>for rank, result in enumerate(results, 1)\<close>, from \<open>rank\<close> on.\<close>

fun insert_results :: "db \<Rightarrow> int \<Rightarrow> nat \<Rightarrow> score_dict list \<Rightarrow> error + db" where
  "insert_results cur session_id rank [] = Inr cur"
| "insert_results cur session_id rank (result # rest) =
     and_then (insert_result cur session_id rank result)
       (\<lambda>cur'. insert_results cur' session_id (Suc rank) rest)"

text \<open>
  \<open>save_session\<close> works in one transaction on its own connection: \<open>cur\<close> is the state
  inside the transaction, and only the \<open>commit\<close> at the end makes it the state of the
  database. When a statement raises, the function is left before the \<open>commit\<close>, the
  connection is dropped and its transaction rolled back: the result is the exception
  and the database stays as it was. \<open>now\<close> is the clock's reading.
\<close>

definition save_session ::
  "db \<Rightarrow> nat \<Rightarrow> string \<Rightarrow> string \<Rightarrow> score_dict list \<Rightarrow> error + (db \<times> int)" where
  "save_session d now job_title company results_arg =
     (let session_id = sessions_seq d + 1;
          cur = d \<lparr> sessions := sessions d @
                  [\<lparr> s_id = session_id,
                     s_job_title = job_title,
                     s_company = company,
                     s_timestamp = now,
                     s_is_hidden = 0,
                     s_total_candidates = length results_arg \<rparr>],
                sessions_seq := session_id \<rparr>
      in and_then (insert_results cur session_id 1 results_arg)
           (\<lambda>cur'. Inr (cur', session_id)))"

text \<open>
  \<open>ORDER BY timestamp DESC\<close>. (SQL leaves the order of rows with equal timestamps
  open; here they keep the order of insertion.)
\<close>

definition order_by_timestamp_desc :: "session_row list \<Rightarrow> session_row list" where
  "order_by_timestamp_desc rows = sort_key (\<lambda>s. - int (s_timestamp s)) rows"

definition get_all_sessions :: "db \<Rightarrow> bool \<Rightarrow> session_row list" where
  "get_all_sessions d include_hidden =
     (if include_hidden then order_by_timestamp_desc (sessions d)
      else order_by_timestamp_desc (filter (\<lambda>s. s_is_hidden s = 0) (sessions d)))"

text \<open>The body of the loops over \<open>cursor.fetchall()\<close> in the two read paths.\<close>

definition decode_row :: "result_row \<Rightarrow> error + result_out" where
  "decode_row row =
     and_then (json_loads_list (r_strengths row)) (\<lambda>strengths.
     and_then (json_loads_list (r_weaknesses row)) (\<lambda>weaknesses.
       Inr \<lparr> o_id = r_id row,
             o_session_id = r_session_id row,
             o_resume_id = r_resume_id row,
             o_candidate_name = r_candidate_name row,
             o_overall_score = r_overall_score row,
             o_skills_match_score = r_skills_match_score row,
             o_experience_score = r_experience_score row,
             o_education_score = r_education_score row,
             o_reasoning = r_reasoning row,
             o_strengths = strengths,
             o_weaknesses = weaknesses,
             o_recommendation = r_recommendation row,
             o_rank = r_rank row \<rparr>))"

fun decode_rows :: "result_row list \<Rightarrow> error + result_out list" where
  "decode_rows [] = Inr []"
| "decode_rows (row # rows) =
     and_then (decode_row row) (\<lambda>result.
     and_then (decode_rows rows) (\<lambda>rest. Inr (result # rest)))"

text \<open>\<open>SELECT * FROM results WHERE session_id = ? ORDER BY rank\<close>.\<close>

definition select_results :: "db \<Rightarrow> int \<Rightarrow> result_row list" where
  "select_results d session_id =
     sort_key r_rank (filter (\<lambda>r. r_session_id r = session_id) (results d))"

text \<open>
  An argument bound to a \<open>?\<close> of a statement is a Python \<open>int\<close>. The \<open>sqlite3\<close> binding
  turns it into a signed 64-bit SQLite integer and raises \<open>OverflowError\<close> for a value
  outside that range, when \<open>execute\<close> is called and before the statement runs.
\<close>

definition sqlite_int :: "int \<Rightarrow> bool" where
  "sqlite_int i \<longleftrightarrow> - 9223372036854775808 \<le> i \<and> i \<le> 9223372036854775807"

text \<open>
  \<open>get_session_results\<close>: the first \<open>execute\<close> binds \<open>session_id\<close>. \<open>fetchone()\<close> is
  \<open>None\<close> when no session row has the id, and \<open>dict(None)\<close> raises \<open>TypeError\<close>.
\<close>

definition get_session_results :: "db \<Rightarrow> int \<Rightarrow> error + (session_row \<times> result_out list)" where
  "get_session_results d session_id =
     (if \<not> sqlite_int session_id then Inl OverflowError
      else case filter (\<lambda>s. s_id s = session_id) (sessions d) of
        [] \<Rightarrow> Inl TypeError
      | session # others \<Rightarrow>
          and_then (decode_rows (select_results d session_id))
            (\<lambda>rows. Inr (session, rows)))"

text \<open>
  \<open>hide_session\<close> and \<open>unhide_session\<close> return nothing: they are given by the store
  that the \<open>UPDATE\<close> leaves. (For an argument outside the range the binding raises
  before the \<open>UPDATE\<close>; SQLite assigns no such id, so there is no row that the
  statement would have changed.)
\<close>

definition hide_session :: "db \<Rightarrow> int \<Rightarrow> db" where
  "hide_session d session_id =
     d \<lparr> sessions := map (\<lambda>s. if s_id s = session_id then s \<lparr> s_is_hidden := 1 \<rparr> else s)
                        (sessions d) \<rparr>"

definition unhide_session :: "db \<Rightarrow> int \<Rightarrow> db" where
  "unhide_session d session_id =
     d \<lparr> sessions := map (\<lambda>s. if s_id s = session_id then s \<lparr> s_is_hidden := 0 \<rparr> else s)
                        (sessions d) \<rparr>"

text \<open>
  \<open>delete_session\<close>: the first \<open>execute\<close> binds \<open>session_id\<close> and raises for a value
  outside the range; the function is then left before any row is deleted.
  \<open>delete_rows\<close> is the store after the two \<open>DELETE\<close> statements and the \<open>commit\<close>.
\<close>

definition delete_rows :: "db \<Rightarrow> int \<Rightarrow> db" where
  "delete_rows d session_id =
     d \<lparr> results := filter (\<lambda>r. r_session_id r \<noteq> session_id) (results d),
         sessions := filter (\<lambda>s. s_id s \<noteq> session_id) (sessions d) \<rparr>"

definition delete_session :: "db \<Rightarrow> int \<Rightarrow> error + db" where
  "delete_session d session_id =
     (if \<not> sqlite_int session_id then Inl OverflowError
      else Inr (delete_rows d session_id))"

definition clear_all_history :: "db \<Rightarrow> db" where
  "clear_all_history d = d \<lparr> results := [], sessions := [] \<rparr>"

text \<open>\<open>LIMIT n\<close>: a negative \<open>n\<close> means no limit.\<close>

definition sql_limit :: "int \<Rightarrow> 'a list \<Rightarrow> 'a list" where
  "sql_limit n rows = (if n < 0 then rows else take (nat n) rows)"

text \<open>\<open>get_top_candidates\<close>: \<open>execute\<close> binds \<open>session_id\<close> and \<open>top_n\<close>.\<close>

definition get_top_candidates :: "db \<Rightarrow> int \<Rightarrow> int \<Rightarrow> error + result_out list" where
  "get_top_candidates d session_id top_n =
     (if \<not> sqlite_int session_id \<or> \<not> sqlite_int top_n then Inl OverflowError
      else decode_rows (sql_limit top_n (select_results d session_id)))"

subsection \<open>Sequences of operations\<close>

text \<open>
  The operations that change the store. A \<open>save_session\<close> or a \<open>delete_session\<close>
  that raises leaves the store as it was.
\<close>

datatype store_op =
    SaveSession nat string string "score_dict list"
  | HideSession int
  | UnhideSession int
  | DeleteSession int
  | ClearAllHistory

fun apply_op :: "db \<Rightarrow> store_op \<Rightarrow> db" where
  "apply_op d (SaveSession now job_title company rs) =
     (case save_session d now job_title company rs of
        Inl e \<Rightarrow> d
      | Inr (d', session_id) \<Rightarrow> d')"
| "apply_op d (HideSession i) = hide_session d i"
| "apply_op d (UnhideSession i) = unhide_session d i"
| "apply_op d (DeleteSession i) =
     (case delete_session d i of
        Inl e \<Rightarrow> d
      | Inr d' \<Rightarrow> d')"
| "apply_op d ClearAllHistory = clear_all_history d"

definition run :: "store_op list \<Rightarrow> db" where
  "run ops = foldl apply_op init_database ops"

text \<open>The rows of a session, in table order.\<close>

definition rows_of :: "db \<Rightarrow> int \<Rightarrow> result_row list" where
  "rows_of d i = filter (\<lambda>r. r_session_id r = i) (results d)"

text \<open>
  A column text is the encoding of a list: it decodes, and encoding the decoded list
  gives the text back.
\<close>

definition encoded_list :: "string \<Rightarrow> bool" where
  "encoded_list col =
     (case json_loads_list col of Inl e \<Rightarrow> False | Inr v \<Rightarrow> json_dumps_list v = col)"

text \<open>The row \<open>row\<close> holds the values of the \<open>dict\<close> \<open>result\<close> for the session \<open>i\<close>.\<close>

definition stored_as :: "int \<Rightarrow> result_row \<Rightarrow> score_dict \<Rightarrow> bool" where
  "stored_as i row result \<longleftrightarrow>
     r_session_id row = i
   \<and> r_resume_id row = d_resume_id result
   \<and> Some (r_candidate_name row) = d_candidate_name result
   \<and> r_overall_score row = d_overall_score result
   \<and> r_skills_match_score row = d_skills_match_score result
   \<and> r_experience_score row = d_experience_score result
   \<and> r_education_score row = d_education_score result
   \<and> r_reasoning row = d_reasoning result
   \<and> r_strengths row = json_dumps_list (get_list (d_strengths result))
   \<and> r_weaknesses row = json_dumps_list (get_list (d_weaknesses result))
   \<and> r_recommendation row = d_recommendation result"

text \<open>What \<open>decode_row\<close> returns for a row whose collection columns decode.\<close>

definition decoded :: "result_row \<Rightarrow> result_out" where
  "decoded row =
     \<lparr> o_id = r_id row,
       o_session_id = r_session_id row,
       o_resume_id = r_resume_id row,
       o_candidate_name = r_candidate_name row,
       o_overall_score = r_overall_score row,
       o_skills_match_score = r_skills_match_score row,
       o_experience_score = r_experience_score row,
       o_education_score = r_education_score row,
       o_reasoning = r_reasoning row,
       o_strengths = projr (json_loads_list (r_strengths row)),
       o_weaknesses = projr (json_loads_list (r_weaknesses row)),
       o_recommendation = r_recommendation row,
       o_rank = r_rank row \<rparr>"

text \<open>
  The invariant of the store: session ids are distinct and not beyond the counter,
  every result row belongs to a session row, the rows of a session carry the ranks
  1 to \<open>total_candidates\<close> in table order, and both collection columns hold
  encoded lists.
\<close>

definition wf_db :: "db \<Rightarrow> bool" where
  "wf_db d \<longleftrightarrow>
     (\<forall>s \<in> set (sessions d). s_id s \<le> sessions_seq d)
   \<and> distinct (map s_id (sessions d))
   \<and> (\<forall>r \<in> set (results d). r_session_id r \<in> s_id ` set (sessions d))
   \<and> (\<forall>s \<in> set (sessions d).
        map r_rank (rows_of d (s_id s)) = [1 ..< Suc (s_total_candidates s)])
   \<and> (\<forall>r \<in> set (results d). encoded_list (r_strengths r) \<and> encoded_list (r_weaknesses r))"

subsection \<open>Example data\<close>

text \<open>
  Two score records as the scorer returns them, one record without a candidate name,
  and a run of the store that saves the first two as one session.
\<close>

definition ann :: score_dict where
  "ann = \<lparr> d_resume_id = Some ''ann_pdf'',
           d_candidate_name = Some ''Ann'',
           d_overall_score = Some 90,
           d_skills_match_score = Some 85,
           d_experience_score = Some 80,
           d_education_score = Some 75,
           d_reasoning = Some ''strong match'',
           d_strengths = Some [''python'', ''sql''],
           d_weaknesses = None,
           d_recommendation = Some ''hire'' \<rparr>"

definition bob :: score_dict where
  "bob = \<lparr> d_resume_id = Some ''bob_pdf'',
           d_candidate_name = Some ''Bob'',
           d_overall_score = Some 40,
           d_skills_match_score = Some 35,
           d_experience_score = Some 50,
           d_education_score = Some 45,
           d_reasoning = Some ''weak match'',
           d_strengths = Some [],
           d_weaknesses = Some [''no degree''],
           d_recommendation = Some ''reject'' \<rparr>"

definition nameless :: score_dict where
  "nameless = bob \<lparr> d_candidate_name := None \<rparr>"

definition engineer_run :: "store_op list" where
  "engineer_run = [SaveSession 100 ''Engineer'' ''Acme'' [ann, bob]]"

definition engineer_row :: session_row where
  "engineer_row = \<lparr> s_id = 1, s_job_title = ''Engineer'', s_company = ''Acme'',
                    s_timestamp = 100, s_is_hidden = 0, s_total_candidates = 2 \<rparr>"

section \<open>Properties of the extractor\<close>

lemma and_then_Inl [simp]: "and_then (Inl e) f = Inl e"
  by (simp add: and_then_def)

lemma and_then_Inr [simp]: "and_then (Inr x) f = f x"
  by (simp add: and_then_def)

lemma and_then_eq_Inr:
  "and_then r f = Inr y \<longleftrightarrow> (\<exists>x. r = Inr x \<and> f x = Inr y)"
  by (cases r) auto

lemma replace_from_char:
  "replace_from [c] [d] s = map (\<lambda>x. if x = c then d else x) s"
  by (induction s) (auto simp: startswith_def)

lemma py_replace_char: "py_replace s [c] [d] = map (\<lambda>x. if x = c then d else x) s"
  by (simp add: py_replace_def replace_from_char)

lemma replace_from_absent:
  "old \<noteq> [] \<Longrightarrow> hd old \<notin> set s \<Longrightarrow> replace_from old new s = s"
  by (induction s) (auto simp: startswith_def neq_Nil_conv)

lemma replace_from_append_absent:
  "old \<noteq> [] \<Longrightarrow> hd old \<notin> set b \<Longrightarrow>
   replace_from old new (b @ s) = b @ replace_from old new s"
  by (induction b) (auto simp: startswith_def neq_Nil_conv)

lemma py_get_not_dict: "\<forall>d. v \<noteq> JObj d \<Longrightarrow> py_get v k dflt = Inl AttributeError"
  by (cases v) auto

lemma summary_prefix: "(if length text > 300 then take 300 text else text) = take 300 text"
  by simp

lemma resume_fallback_fields:
  "resume_fallback text filename =
     \<lparr> Resume_id = map (\<lambda>c. if c = CHR ''.'' then CHR ''_'' else c) filename,
       Resume_name = JStr (py_replace (py_replace (py_replace
          (map (\<lambda>c. if c = CHR ''_'' then CHR '' '' else c) filename)
          ''.pdf'' '''') ''.docx'' '''') ''.txt'' ''''),
       Resume_email = JStr '''',
       Resume_phone = JStr '''',
       Resume_skills = JArr [],
       Resume_experience = JArr [],
       Resume_education = JArr [],
       Resume_summary = JStr (take 300 text) \<rparr>"
  by (simp add: resume_fallback_def py_replace_char)

lemma strip_known_extension:
  assumes "CHR ''.'' \<notin> set b" and "ext = ''.pdf'' \<or> ext = ''.docx'' \<or> ext = ''.txt''"
    and "b' = b @ ext"
  shows "py_replace (py_replace (py_replace b' ''.pdf'' '''') ''.docx'' '''') ''.txt'' '''' = b"
  using assms
  by (auto simp: py_replace_def replace_from_append_absent replace_from_absent startswith_def)

lemma try_resume_request_fails: "parse_resume_try L (Inl e) text fn = Inl e"
  by (simp add: parse_resume_try_def)

lemma try_resume_decode_fails:
  "extract_json_text (py_strip c) = Inr t \<Longrightarrow> L t = Inl e \<Longrightarrow>
   parse_resume_try L (Inr c) text fn = Inl e"
  by (simp add: parse_resume_try_def)

text \<open>
  Claim C1, as amended. Whenever the \<open>try\<close> block of \<open>parse_resume_with_ai\<close> raises
  (the request fails, the decoder rejects the text, or any later step raises), the
  function still returns a record: its id is the filename with every dot turned into
  an underscore, its name is the filename with underscores turned into spaces and
  then every occurrence of the texts \<open>.pdf\<close>, \<open>.docx\<close>, \<open>.txt\<close> removed, its
  structured fields are empty and its summary is the first 300 characters of the raw
  text. The extension is stripped from the name when the filename is a dot-free base
  followed by one of these three lower-case extensions: then the name is the base
  with spaces for underscores.
\<close>

theorem extract_candidate_fallback:
  assumes "response = Inl e
     \<or> (\<exists>c t. response = Inr c \<and> extract_json_text (py_strip c) = Inr t \<and> json_loads t = Inl e)
     \<or> parse_resume_try json_loads response text filename = Inl e"
  shows "parse_resume_with_ai json_loads response text filename =
     \<lparr> Resume_id = map (\<lambda>c. if c = CHR ''.'' then CHR ''_'' else c) filename,
       Resume_name = JStr (py_replace (py_replace (py_replace
          (map (\<lambda>c. if c = CHR ''_'' then CHR '' '' else c) filename)
          ''.pdf'' '''') ''.docx'' '''') ''.txt'' ''''),
       Resume_email = JStr '''',
       Resume_phone = JStr '''',
       Resume_skills = JArr [],
       Resume_experience = JArr [],
       Resume_education = JArr [],
       Resume_summary = JStr (take 300 text) \<rparr>
   \<and> (\<forall>b ext. filename = b @ ext \<and> CHR ''.'' \<notin> set b
          \<and> (ext = ''.pdf'' \<or> ext = ''.docx'' \<or> ext = ''.txt'')
        \<longrightarrow> Resume_name (parse_resume_with_ai json_loads response text filename)
              = JStr (map (\<lambda>c. if c = CHR ''_'' then CHR '' '' else c) b))"
proof -
  from assms have failed: "parse_resume_try json_loads response text filename = Inl e"
    using try_resume_request_fails try_resume_decode_fails by blast
  then have fb: "parse_resume_with_ai json_loads response text filename
      = resume_fallback text filename"
    by (simp add: parse_resume_with_ai_def)
  have name: "Resume_name (resume_fallback text (b @ ext))
      = JStr (map (\<lambda>c. if c = CHR ''_'' then CHR '' '' else c) b)"
    if "CHR ''.'' \<notin> set b" and "ext = ''.pdf'' \<or> ext = ''.docx'' \<or> ext = ''.txt''"
    for b ext
  proof -
    let ?f = "\<lambda>c. if c = CHR ''_'' then CHR '' '' else c"
    have "map ?f (b @ ext) = map ?f b @ ext"
      using that(2) by auto
    moreover have "CHR ''.'' \<notin> set (map ?f b)"
      using that(1) by auto
    ultimately show ?thesis
      using strip_known_extension [of "map ?f b" ext "map ?f (b @ ext)"] that(2)
      by (simp add: resume_fallback_fields)
  qed
  show ?thesis
  proof (intro conjI allI impI)
    show "parse_resume_with_ai json_loads response text filename =
     \<lparr> Resume_id = map (\<lambda>c. if c = CHR ''.'' then CHR ''_'' else c) filename,
       Resume_name = JStr (py_replace (py_replace (py_replace
          (map (\<lambda>c. if c = CHR ''_'' then CHR '' '' else c) filename)
          ''.pdf'' []) ''.docx'' []) ''.txt'' []),
       Resume_email = JStr [],
       Resume_phone = JStr [],
       Resume_skills = JArr [],
       Resume_experience = JArr [],
       Resume_education = JArr [],
       Resume_summary = JStr (take 300 text) \<rparr>"
      unfolding fb by (rule resume_fallback_fields)
  next
    fix b ext
    assume h: "filename = b @ ext \<and> CHR ''.'' \<notin> set b
          \<and> (ext = ''.pdf'' \<or> ext = ''.docx'' \<or> ext = ''.txt'')"
    then have eq: "filename = b @ ext" and b: "CHR ''.'' \<notin> set b"
      and ext: "ext = ''.pdf'' \<or> ext = ''.docx'' \<or> ext = ''.txt''"
      by blast+
    show "Resume_name (parse_resume_with_ai json_loads response text filename)
              = JStr (map (\<lambda>c. if c = CHR ''_'' then CHR '' '' else c) b)"
      by (subst fb, unfold eq, rule name [OF b ext])
  qed
qed

lemma fence_chars: "fence = [CHR 0x60, CHR 0x60, CHR 0x60]"
  by (simp add: fence_def numeral_3_eq_3)

lemma extract_plain:
  "\<not> py_in fence s \<Longrightarrow> \<not> py_in (fence @ ''json'') s \<Longrightarrow> extract_json_text s = Inr s"
  by (simp add: extract_json_text_def)

theorem extract_candidate_fallback_witness:
  "parse_resume_try (loads_at ''{}'' (JObj [])) (Inr ''I cannot read this resume.'')
      (replicate 301 (CHR ''x'')) ''john_doe.pdf'' = Inl JSONDecodeError
   \<and> parse_resume_with_ai (loads_at ''{}'' (JObj [])) (Inr ''I cannot read this resume.'')
      (replicate 301 (CHR ''x'')) ''john_doe.pdf'' =
     \<lparr> Resume_id = ''john_doe_pdf'',
       Resume_name = JStr ''john doe'',
       Resume_email = JStr '''',
       Resume_phone = JStr '''',
       Resume_skills = JArr [],
       Resume_experience = JArr [],
       Resume_education = JArr [],
       Resume_summary = JStr (replicate 300 (CHR ''x'')) \<rparr>"
proof -
  have failed: "parse_resume_try (loads_at ''{}'' (JObj [])) (Inr ''I cannot read this resume.'')
      (replicate 301 (CHR ''x'')) ''john_doe.pdf'' = Inl JSONDecodeError"
    by (simp add: parse_resume_try_def py_strip_def isspace_def extract_json_text_def
        fence_chars startswith_def loads_at_def)
  show ?thesis
    using failed extract_candidate_fallback [of "Inr ''I cannot read this resume.''"
        JSONDecodeError "loads_at ''{}'' (JObj [])" "replicate 301 (CHR ''x'')" "''john_doe.pdf''"]
    by (simp add: py_replace_def startswith_def)
qed

text \<open>
  Claim C1, counterexample. The request fails and the filename is \<open>cv.doc\<close> or
  \<open>CV.PDF\<close>: the fallback record is returned, and its name is the whole filename,
  extension included, since only the lower-case texts \<open>.pdf\<close>, \<open>.docx\<close> and \<open>.txt\<close>
  are removed.
\<close>

theorem extension_kept_counterexample:
  "parse_resume_with_ai (loads_at ''{}'' (JObj [])) (Inl RequestError) ''resume text'' ''cv.doc''
     = resume_fallback ''resume text'' ''cv.doc''
   \<and> Resume_name (parse_resume_with_ai (loads_at ''{}'' (JObj [])) (Inl RequestError)
        ''resume text'' ''cv.doc'') = JStr ''cv.doc''
   \<and> Resume_name (parse_resume_with_ai (loads_at ''{}'' (JObj [])) (Inl RequestError)
        ''resume text'' ''CV.PDF'') = JStr ''CV.PDF''"
  by (simp add: parse_resume_with_ai_def parse_resume_try_def resume_fallback_def
      py_replace_def startswith_def)

lemma try_resume_dict:
  "extract_json_text (py_strip c) = Inr t \<Longrightarrow> L t = Inr (JObj d) \<Longrightarrow>
   parse_resume_try L (Inr c) text fn =
     Inr \<lparr> Resume_id = py_replace fn ''.'' ''_'',
           Resume_name = dict_get d ''name'' (JStr ''Candidate''),
           Resume_email = dict_get d ''email'' (JStr ''''),
           Resume_phone = dict_get d ''phone'' (JStr ''''),
           Resume_skills = dict_get d ''skills'' (JArr []),
           Resume_experience = dict_get d ''experience'' (JArr []),
           Resume_education = dict_get d ''education'' (JArr []),
           Resume_summary = dict_get d ''summary'' (JStr (take 300 text)) \<rparr>"
  by (simp add: parse_resume_try_def)

lemma try_resume_not_dict:
  "extract_json_text (py_strip c) = Inr t \<Longrightarrow> L t = Inr v \<Longrightarrow> \<forall>d. v \<noteq> JObj d \<Longrightarrow>
   parse_resume_try L (Inr c) text fn = Inl AttributeError"
  by (simp add: parse_resume_try_def py_get_not_dict)

lemma try_job_dict:
  "extract_json_text (py_strip c) = Inr t \<Longrightarrow> L t = Inr (JObj d) \<Longrightarrow>
   py_int (dict_get d ''experience_years'' (JInt 0)) = Inr n \<Longrightarrow>
   parse_job_try L (Inr c) text =
     Inr \<lparr> Job_title = dict_get d ''title'' (JStr ''Position''),
           Job_company = dict_get d ''company'' (JStr ''Company''),
           Job_required_skills = dict_get d ''required_skills'' (JArr []),
           Job_preferred_skills = dict_get d ''preferred_skills'' (JArr []),
           Job_experience_years = n,
           Job_responsibilities = dict_get d ''responsibilities'' (JArr []),
           Job_qualifications = dict_get d ''qualifications'' (JArr []),
           Job_description = dict_get d ''description'' (JStr text) \<rparr>"
  by (simp add: parse_job_try_def)

lemma try_job_int_fails:
  "extract_json_text (py_strip c) = Inr t \<Longrightarrow> L t = Inr (JObj d) \<Longrightarrow>
   py_int (dict_get d ''experience_years'' (JInt 0)) = Inl e \<Longrightarrow>
   parse_job_try L (Inr c) text = Inl e"
  by (simp add: parse_job_try_def)

lemma try_job_not_dict:
  "extract_json_text (py_strip c) = Inr t \<Longrightarrow> L t = Inr v \<Longrightarrow> \<forall>d. v \<noteq> JObj d \<Longrightarrow>
   parse_job_try L (Inr c) text = Inl AttributeError"
  by (simp add: parse_job_try_def py_get_not_dict)

lemma dict_get_absent: "k \<notin> fst ` set d \<Longrightarrow> dict_get d k dflt = dflt"
  by (simp add: dict_get_def map_of_eq_None_iff [THEN iffD2])

lemma extract_skills_doc: "extract_json_text (py_strip skills_doc) = Inr skills_doc"
  by (simp add: skills_doc_def quoted_def py_strip_def isspace_def extract_json_text_def
      fence_chars startswith_def)

text \<open>
  Claim C2, counterexample. The response is an object whose \<open>skills\<close> field is a text
  instead of a list. It decodes, and \<open>parse_resume_with_ai\<close> returns a record whose
  \<open>skills\<close> field is that text; the record is not the fallback record.
\<close>

theorem wrong_type_kept_counterexample:
  "Resume_skills (parse_resume_with_ai (loads_at skills_doc (JObj [(''skills'', JStr ''python'')]))
      (Inr skills_doc) ''resume text'' ''a.pdf'') = JStr ''python''
   \<and> parse_resume_with_ai (loads_at skills_doc (JObj [(''skills'', JStr ''python'')]))
      (Inr skills_doc) ''resume text'' ''a.pdf'' \<noteq> resume_fallback ''resume text'' ''a.pdf''"
proof -
  have t: "parse_resume_try (loads_at skills_doc (JObj [(''skills'', JStr ''python'')]))
      (Inr skills_doc) ''resume text'' ''a.pdf'' = Inr \<lparr> Resume_id = py_replace ''a.pdf'' ''.'' ''_'',
           Resume_name = JStr ''Candidate'',
           Resume_email = JStr '''',
           Resume_phone = JStr '''',
           Resume_skills = JStr ''python'',
           Resume_experience = JArr [],
           Resume_education = JArr [],
           Resume_summary = JStr ''resume text'' \<rparr>"
    using try_resume_dict [OF extract_skills_doc, of "loads_at skills_doc (JObj [(''skills'', JStr ''python'')])"
        "[(''skills'', JStr ''python'')]" "''resume text''" "''a.pdf''"]
    by (simp add: loads_at_def dict_get_def)
  show ?thesis
    by (simp add: parse_resume_with_ai_def t resume_fallback_def)
qed


lemma resume_dict_result:
  assumes "extract_json_text (py_strip c) = Inr t" and "L t = Inr (JObj d)"
  shows "parse_resume_with_ai L (Inr c) text fn =
     \<lparr> Resume_id = map (\<lambda>c. if c = CHR ''.'' then CHR ''_'' else c) fn,
       Resume_name = dict_get d ''name'' (JStr ''Candidate''),
       Resume_email = dict_get d ''email'' (JStr ''''),
       Resume_phone = dict_get d ''phone'' (JStr ''''),
       Resume_skills = dict_get d ''skills'' (JArr []),
       Resume_experience = dict_get d ''experience'' (JArr []),
       Resume_education = dict_get d ''education'' (JArr []),
       Resume_summary = dict_get d ''summary'' (JStr (take 300 text)) \<rparr>"
  using try_resume_dict [of c t L d "text" fn] assms
  by (simp add: parse_resume_with_ai_def py_replace_char)

lemma resume_not_dict_result:
  assumes "extract_json_text (py_strip c) = Inr t" and "L t = Inr v" and "\<forall>d. v \<noteq> JObj d"
  shows "parse_resume_with_ai L (Inr c) text fn = resume_fallback text fn"
  using try_resume_not_dict [of c t L v "text" fn] assms
  by (simp add: parse_resume_with_ai_def)

lemma job_dict_result:
  assumes "extract_json_text (py_strip c) = Inr t" and "L t = Inr (JObj d)"
    and "py_int (dict_get d ''experience_years'' (JInt 0)) = Inr n"
  shows "parse_job_description_with_ai L (Inr c) text =
     \<lparr> Job_title = dict_get d ''title'' (JStr ''Position''),
       Job_company = dict_get d ''company'' (JStr ''Company''),
       Job_required_skills = dict_get d ''required_skills'' (JArr []),
       Job_preferred_skills = dict_get d ''preferred_skills'' (JArr []),
       Job_experience_years = n,
       Job_responsibilities = dict_get d ''responsibilities'' (JArr []),
       Job_qualifications = dict_get d ''qualifications'' (JArr []),
       Job_description = dict_get d ''description'' (JStr text) \<rparr>"
  using try_job_dict [of c t L d n "text"] assms
  by (simp add: parse_job_description_with_ai_def)

lemma job_int_fails_result:
  assumes "extract_json_text (py_strip c) = Inr t" and "L t = Inr (JObj d)"
    and "py_int (dict_get d ''experience_years'' (JInt 0)) = Inl e"
  shows "parse_job_description_with_ai L (Inr c) text = job_fallback text"
  using try_job_int_fails [of c t L d e "text"] assms
  by (simp add: parse_job_description_with_ai_def)

lemma job_not_dict_result:
  assumes "extract_json_text (py_strip c) = Inr t" and "L t = Inr v" and "\<forall>d. v \<noteq> JObj d"
  shows "parse_job_description_with_ai L (Inr c) text = job_fallback text"
  using try_job_not_dict [of c t L v "text"] assms
  by (simp add: parse_job_description_with_ai_def)

lemma int_of_str_too_long:
  "max_str_digits < length (filter (\<lambda>c. c \<noteq> CHR ''_'') (int_strip s)) \<Longrightarrow>
   int_strip s \<noteq> [] \<Longrightarrow> hd (int_strip s) \<noteq> CHR ''-'' \<Longrightarrow> hd (int_strip s) \<noteq> CHR ''+'' \<Longrightarrow>
   int_of_str s = Inl ValueError"
  by (simp add: int_of_str_def Let_def)

lemma int_of_str_examples:
  "int_of_str '' 42 '' = Inr 42"
  "int_of_str ''-1_000'' = Inr (- 1000)"
  "int_of_str ''007'' = Inr 7"
  "int_of_str [CHR 0xA0, CHR ''7''] = Inr 7"
  "int_of_str [CHR 0x1C, CHR ''7''] = Inl ValueError"
  "int_of_str ''3.5'' = Inl ValueError"
  "int_of_str ''five'' = Inl ValueError"
  "int_of_str [] = Inl ValueError"
  by (simp_all add: int_of_str_def int_strip_def int_space_def isdigit_def digits_value_def
      max_str_digits_def)

text \<open>
  Claim C2, as amended. Neither function checks the type of a field. When the text
  decodes to an object, \<open>parse_resume_with_ai\<close> returns the record filled with the
  decoded values as they are (the default where the key is absent), and so does
  \<open>parse_job_description_with_ai\<close> whenever \<open>int\<close> accepts the value of
  \<open>experience_years\<close> (\<open>py_int\<close>: an integer, a boolean, a finite float, or a text
  that \<open>int\<close> reads as a decimal number). The fallback record is returned when \<open>int\<close>
  raises on that value and when the decoded value is not an object.
\<close>

theorem decoded_fields_kept_as_they_are:
  assumes "extract_json_text (py_strip c) = Inr t" and "json_loads t = Inr v"
  shows "(\<forall>d. v = JObj d \<longrightarrow>
      parse_resume_with_ai json_loads (Inr c) text filename =
        \<lparr> Resume_id = map (\<lambda>c. if c = CHR ''.'' then CHR ''_'' else c) filename,
          Resume_name = dict_get d ''name'' (JStr ''Candidate''),
          Resume_email = dict_get d ''email'' (JStr ''''),
          Resume_phone = dict_get d ''phone'' (JStr ''''),
          Resume_skills = dict_get d ''skills'' (JArr []),
          Resume_experience = dict_get d ''experience'' (JArr []),
          Resume_education = dict_get d ''education'' (JArr []),
          Resume_summary = dict_get d ''summary'' (JStr (take 300 text)) \<rparr>)
   \<and> (\<forall>d n. v = JObj d \<and> py_int (dict_get d ''experience_years'' (JInt 0)) = Inr n \<longrightarrow>
      parse_job_description_with_ai json_loads (Inr c) text =
        \<lparr> Job_title = dict_get d ''title'' (JStr ''Position''),
          Job_company = dict_get d ''company'' (JStr ''Company''),
          Job_required_skills = dict_get d ''required_skills'' (JArr []),
          Job_preferred_skills = dict_get d ''preferred_skills'' (JArr []),
          Job_experience_years = n,
          Job_responsibilities = dict_get d ''responsibilities'' (JArr []),
          Job_qualifications = dict_get d ''qualifications'' (JArr []),
          Job_description = dict_get d ''description'' (JStr text) \<rparr>)
   \<and> (\<forall>d e. v = JObj d \<and> py_int (dict_get d ''experience_years'' (JInt 0)) = Inl e \<longrightarrow>
      parse_job_description_with_ai json_loads (Inr c) text = job_fallback text)
   \<and> ((\<forall>d. v \<noteq> JObj d) \<longrightarrow>
      parse_resume_with_ai json_loads (Inr c) text filename = resume_fallback text filename
      \<and> parse_job_description_with_ai json_loads (Inr c) text = job_fallback text)"
proof (intro conjI allI impI)
  fix d assume "v = JObj d"
  with assms show "parse_resume_with_ai json_loads (Inr c) text filename =
        \<lparr> Resume_id = map (\<lambda>c. if c = CHR ''.'' then CHR ''_'' else c) filename,
          Resume_name = dict_get d ''name'' (JStr ''Candidate''),
          Resume_email = dict_get d ''email'' (JStr ''''),
          Resume_phone = dict_get d ''phone'' (JStr ''''),
          Resume_skills = dict_get d ''skills'' (JArr []),
          Resume_experience = dict_get d ''experience'' (JArr []),
          Resume_education = dict_get d ''education'' (JArr []),
          Resume_summary = dict_get d ''summary'' (JStr (take 300 text)) \<rparr>"
    by (simp add: resume_dict_result)
next
  fix d n assume "v = JObj d \<and> py_int (dict_get d ''experience_years'' (JInt 0)) = Inr n"
  with assms show "parse_job_description_with_ai json_loads (Inr c) text =
        \<lparr> Job_title = dict_get d ''title'' (JStr ''Position''),
          Job_company = dict_get d ''company'' (JStr ''Company''),
          Job_required_skills = dict_get d ''required_skills'' (JArr []),
          Job_preferred_skills = dict_get d ''preferred_skills'' (JArr []),
          Job_experience_years = n,
          Job_responsibilities = dict_get d ''responsibilities'' (JArr []),
          Job_qualifications = dict_get d ''qualifications'' (JArr []),
          Job_description = dict_get d ''description'' (JStr text) \<rparr>"
    by (simp add: job_dict_result)
next
  fix d e assume "v = JObj d \<and> py_int (dict_get d ''experience_years'' (JInt 0)) = Inl e"
  with assms show "parse_job_description_with_ai json_loads (Inr c) text = job_fallback text"
    using job_int_fails_result by blast
next
  assume "\<forall>d. v \<noteq> JObj d"
  with assms show "parse_resume_with_ai json_loads (Inr c) text filename
      = resume_fallback text filename"
    using resume_not_dict_result by blast
next
  assume "\<forall>d. v \<noteq> JObj d"
  with assms show "parse_job_description_with_ai json_loads (Inr c) text = job_fallback text"
    using job_not_dict_result by blast
qed

lemma extract_required_doc: "extract_json_text (py_strip required_doc) = Inr required_doc"
  by (simp add: required_doc_def quoted_def py_strip_def isspace_def extract_json_text_def
      fence_chars startswith_def)

theorem decoded_fields_kept_as_they_are_witness:
  "extract_json_text (py_strip required_doc) = Inr required_doc
   \<and> loads_at required_doc (JObj [(''required_skills'', JStr ''python'')]) required_doc
       = Inr (JObj [(''required_skills'', JStr ''python'')])
   \<and> py_int (dict_get [(''required_skills'', JStr ''python'')] ''experience_years'' (JInt 0)) = Inr 0
   \<and> parse_job_description_with_ai
        (loads_at required_doc (JObj [(''required_skills'', JStr ''python'')]))
        (Inr required_doc) ''job text'' =
        \<lparr> Job_title = JStr ''Position'',
          Job_company = JStr ''Company'',
          Job_required_skills = JStr ''python'',
          Job_preferred_skills = JArr [],
          Job_experience_years = 0,
          Job_responsibilities = JArr [],
          Job_qualifications = JArr [],
          Job_description = JStr ''job text'' \<rparr>
   \<and> parse_resume_with_ai
        (loads_at required_doc (JObj [(''required_skills'', JStr ''python'')]))
        (Inr required_doc) ''resume text'' ''a.pdf'' =
        \<lparr> Resume_id = ''a_pdf'',
          Resume_name = JStr ''Candidate'',
          Resume_email = JStr '''',
          Resume_phone = JStr '''',
          Resume_skills = JArr [],
          Resume_experience = JArr [],
          Resume_education = JArr [],
          Resume_summary = JStr ''resume text'' \<rparr>"
proof -
  have l: "loads_at required_doc (JObj [(''required_skills'', JStr ''python'')]) required_doc
       = Inr (JObj [(''required_skills'', JStr ''python'')])"
    by (simp add: loads_at_def)
  have i: "py_int (dict_get [(''required_skills'', JStr ''python'')] ''experience_years'' (JInt 0))
       = Inr 0"
    by (simp add: dict_get_def)
  note t = decoded_fields_kept_as_they_are [of required_doc required_doc
      "loads_at required_doc (JObj [(''required_skills'', JStr ''python'')])"
      "JObj [(''required_skills'', JStr ''python'')]", OF extract_required_doc l]
  have j: "parse_job_description_with_ai
        (loads_at required_doc (JObj [(''required_skills'', JStr ''python'')]))
        (Inr required_doc) ''job text'' =
        \<lparr> Job_title = JStr ''Position'',
          Job_company = JStr ''Company'',
          Job_required_skills = JStr ''python'',
          Job_preferred_skills = JArr [],
          Job_experience_years = 0,
          Job_responsibilities = JArr [],
          Job_qualifications = JArr [],
          Job_description = JStr ''job text'' \<rparr>"
    using t [of "''job text''", THEN conjunct2, THEN conjunct1, rule_format,
        of "[(''required_skills'', JStr ''python'')]" 0] i
    by (simp add: dict_get_def)
  have r: "parse_resume_with_ai
        (loads_at required_doc (JObj [(''required_skills'', JStr ''python'')]))
        (Inr required_doc) ''resume text'' ''a.pdf'' =
        \<lparr> Resume_id = ''a_pdf'',
          Resume_name = JStr ''Candidate'',
          Resume_email = JStr '''',
          Resume_phone = JStr '''',
          Resume_skills = JArr [],
          Resume_experience = JArr [],
          Resume_education = JArr [],
          Resume_summary = JStr ''resume text'' \<rparr>"
    using t [of "''resume text''" "''a.pdf''", THEN conjunct1, rule_format,
        of "[(''required_skills'', JStr ''python'')]"]
    by (simp add: dict_get_def)
  show ?thesis
    using extract_required_doc l i j r by blast
qed


lemma py_int_default: "py_int (dict_get d ''experience_years'' (JInt 0)) = Inr 0"
  if "''experience_years'' \<notin> fst ` set d"
  using that by (simp add: dict_get_absent)

lemma job_dict_defaults:
  assumes "extract_json_text (py_strip c) = Inr t" and "L t = Inr (JObj d)"
  shows "\<exists>n. parse_job_description_with_ai L (Inr c) raw =
     \<lparr> Job_title = dict_get d ''title'' (JStr ''Position''),
       Job_company = dict_get d ''company'' (JStr ''Company''),
       Job_required_skills = dict_get d ''required_skills'' (JArr []),
       Job_preferred_skills = dict_get d ''preferred_skills'' (JArr []),
       Job_experience_years = n,
       Job_responsibilities = dict_get d ''responsibilities'' (JArr []),
       Job_qualifications = dict_get d ''qualifications'' (JArr []),
       Job_description = dict_get d ''description'' (JStr raw) \<rparr>
     \<or> parse_job_description_with_ai L (Inr c) raw = job_fallback raw"
proof (cases "py_int (dict_get d ''experience_years'' (JInt 0))")
  case (Inl e)
  then show ?thesis using job_int_fails_result [of c t L d e raw] assms by simp
next
  case (Inr n)
  then show ?thesis using job_dict_result [of c t L d n raw] assms by blast
qed

text \<open>
  Claim C8, as amended. When the text decodes to an object, a field whose key is
  absent gets the default written in the code: \<open>Candidate\<close> for the name, the empty
  text for email and phone, the empty list for skills, experience and education, the
  first 300 characters of the raw text for the summary; \<open>Position\<close> for the title,
  \<open>Company\<close> for the company, the empty list for the four collections, zero for the
  years of experience, and the whole raw text for the description.
\<close>

theorem defaults_for_absent_fields:
  assumes "extract_json_text (py_strip c) = Inr t" and "json_loads t = Inr (JObj d)"
  shows "(''name'' \<notin> fst ` set d \<longrightarrow>
        Resume_name (parse_resume_with_ai json_loads (Inr c) text filename) = JStr ''Candidate'')
    \<and> (''email'' \<notin> fst ` set d \<longrightarrow>
        Resume_email (parse_resume_with_ai json_loads (Inr c) text filename) = JStr '''')
    \<and> (''phone'' \<notin> fst ` set d \<longrightarrow>
        Resume_phone (parse_resume_with_ai json_loads (Inr c) text filename) = JStr '''')
    \<and> (''skills'' \<notin> fst ` set d \<longrightarrow>
        Resume_skills (parse_resume_with_ai json_loads (Inr c) text filename) = JArr [])
    \<and> (''experience'' \<notin> fst ` set d \<longrightarrow>
        Resume_experience (parse_resume_with_ai json_loads (Inr c) text filename) = JArr [])
    \<and> (''education'' \<notin> fst ` set d \<longrightarrow>
        Resume_education (parse_resume_with_ai json_loads (Inr c) text filename) = JArr [])
    \<and> (''summary'' \<notin> fst ` set d \<longrightarrow>
        Resume_summary (parse_resume_with_ai json_loads (Inr c) text filename)
          = JStr (take 300 text))
    \<and> (''title'' \<notin> fst ` set d \<longrightarrow>
        Job_title (parse_job_description_with_ai json_loads (Inr c) text) = JStr ''Position'')
    \<and> (''company'' \<notin> fst ` set d \<longrightarrow>
        Job_company (parse_job_description_with_ai json_loads (Inr c) text) = JStr ''Company'')
    \<and> (''required_skills'' \<notin> fst ` set d \<longrightarrow>
        Job_required_skills (parse_job_description_with_ai json_loads (Inr c) text) = JArr [])
    \<and> (''preferred_skills'' \<notin> fst ` set d \<longrightarrow>
        Job_preferred_skills (parse_job_description_with_ai json_loads (Inr c) text) = JArr [])
    \<and> (''experience_years'' \<notin> fst ` set d \<longrightarrow>
        Job_experience_years (parse_job_description_with_ai json_loads (Inr c) text) = 0)
    \<and> (''responsibilities'' \<notin> fst ` set d \<longrightarrow>
        Job_responsibilities (parse_job_description_with_ai json_loads (Inr c) text) = JArr [])
    \<and> (''qualifications'' \<notin> fst ` set d \<longrightarrow>
        Job_qualifications (parse_job_description_with_ai json_loads (Inr c) text) = JArr [])
    \<and> (''description'' \<notin> fst ` set d \<longrightarrow>
        Job_description (parse_job_description_with_ai json_loads (Inr c) text) = JStr text)"
proof -
  note r = resume_dict_result [of c t json_loads d "text" filename, OF assms]
  have years: "Job_experience_years (parse_job_description_with_ai json_loads (Inr c) text) = 0"
    if "''experience_years'' \<notin> fst ` set d"
    using job_dict_result [of c t json_loads d 0 "text", OF assms py_int_default [OF that]]
    by simp
  from job_dict_defaults [of c t json_loads d "text", OF assms]
  have job: "(''title'' \<notin> fst ` set d \<longrightarrow>
        Job_title (parse_job_description_with_ai json_loads (Inr c) text) = JStr ''Position'')
    \<and> (''company'' \<notin> fst ` set d \<longrightarrow>
        Job_company (parse_job_description_with_ai json_loads (Inr c) text) = JStr ''Company'')
    \<and> (''required_skills'' \<notin> fst ` set d \<longrightarrow>
        Job_required_skills (parse_job_description_with_ai json_loads (Inr c) text) = JArr [])
    \<and> (''preferred_skills'' \<notin> fst ` set d \<longrightarrow>
        Job_preferred_skills (parse_job_description_with_ai json_loads (Inr c) text) = JArr [])
    \<and> (''responsibilities'' \<notin> fst ` set d \<longrightarrow>
        Job_responsibilities (parse_job_description_with_ai json_loads (Inr c) text) = JArr [])
    \<and> (''qualifications'' \<notin> fst ` set d \<longrightarrow>
        Job_qualifications (parse_job_description_with_ai json_loads (Inr c) text) = JArr [])
    \<and> (''description'' \<notin> fst ` set d \<longrightarrow>
        Job_description (parse_job_description_with_ai json_loads (Inr c) text) = JStr text)"
    by (auto simp: dict_get_absent job_fallback_def)
  show ?thesis
    using job years by (simp add: r dict_get_absent)
qed

theorem defaults_for_absent_fields_witness:
  "extract_json_text (py_strip ''{}'') = Inr ''{}''
   \<and> loads_at ''{}'' (JObj []) ''{}'' = Inr (JObj [])
   \<and> Resume_name (parse_resume_with_ai (loads_at ''{}'' (JObj [])) (Inr ''{}'')
        (replicate 301 (CHR ''x'')) ''a.pdf'') = JStr ''Candidate''
   \<and> Resume_email (parse_resume_with_ai (loads_at ''{}'' (JObj [])) (Inr ''{}'')
        (replicate 301 (CHR ''x'')) ''a.pdf'') = JStr ''''
   \<and> Resume_skills (parse_resume_with_ai (loads_at ''{}'' (JObj [])) (Inr ''{}'')
        (replicate 301 (CHR ''x'')) ''a.pdf'') = JArr []
   \<and> Resume_summary (parse_resume_with_ai (loads_at ''{}'' (JObj [])) (Inr ''{}'')
        (replicate 301 (CHR ''x'')) ''a.pdf'') = JStr (replicate 300 (CHR ''x''))
   \<and> Job_title (parse_job_description_with_ai (loads_at ''{}'' (JObj [])) (Inr ''{}'')
        (replicate 301 (CHR ''x''))) = JStr ''Position''
   \<and> Job_experience_years (parse_job_description_with_ai (loads_at ''{}'' (JObj []))
        (Inr ''{}'') (replicate 301 (CHR ''x''))) = 0
   \<and> Job_description (parse_job_description_with_ai (loads_at ''{}'' (JObj [])) (Inr ''{}'')
        (replicate 301 (CHR ''x''))) = JStr (replicate 301 (CHR ''x''))"
proof -
  have e: "extract_json_text (py_strip ''{}'') = Inr ''{}''"
    by (simp add: py_strip_def isspace_def extract_json_text_def fence_chars startswith_def)
  have l: "loads_at ''{}'' (JObj []) ''{}'' = Inr (JObj [])"
    by (simp add: loads_at_def)
  show ?thesis
    using e l defaults_for_absent_fields [of "''{}''" "''{}''" "loads_at ''{}'' (JObj [])" "[]"
        "replicate 301 (CHR ''x'')" "''a.pdf''", OF e l]
    by simp
qed

text \<open>
  Claim C8, counterexample. The response is the empty object: decoding succeeds, yet
  the candidate's name is \<open>Candidate\<close>, not the empty text, the job title is
  \<open>Position\<close>, and the job description is the whole raw text of 301 characters.
\<close>

theorem defaults_counterexample:
  "\<not> isl (parse_resume_try (loads_at ''{}'' (JObj [])) (Inr ''{}'') ''resume text'' ''a.pdf'')
   \<and> Resume_name (parse_resume_with_ai (loads_at ''{}'' (JObj [])) (Inr ''{}'')
        ''resume text'' ''a.pdf'') = JStr ''Candidate''
   \<and> Resume_name (parse_resume_with_ai (loads_at ''{}'' (JObj [])) (Inr ''{}'')
        ''resume text'' ''a.pdf'') \<noteq> JStr ''''
   \<and> \<not> isl (parse_job_try (loads_at ''{}'' (JObj [])) (Inr ''{}'') (replicate 301 (CHR ''x'')))
   \<and> Job_title (parse_job_description_with_ai (loads_at ''{}'' (JObj [])) (Inr ''{}'')
        (replicate 301 (CHR ''x''))) = JStr ''Position''
   \<and> Job_description (parse_job_description_with_ai (loads_at ''{}'' (JObj [])) (Inr ''{}'')
        (replicate 301 (CHR ''x''))) = JStr (replicate 301 (CHR ''x''))
   \<and> length (replicate 301 (CHR ''x'')) = 301"
  by (simp add: parse_resume_with_ai_def parse_resume_try_def parse_job_description_with_ai_def
      parse_job_try_def py_strip_def isspace_def extract_json_text_def fence_chars startswith_def
      loads_at_def dict_get_def)




section \<open>Properties of the session store\<close>

subsection \<open>Encoding and decoding a list of texts\<close>

lemma hexval_hexdigit: "k < 16 \<Longrightarrow> hexval (hexdigit k) = Some k"
proof -
  assume "k < 16"
  then have "k \<in> {0, 1, 2, 3, 4, 5, 6, 7, 8, 9, 10, 11, 12, 13, 14, 15}"
    by (simp add: insert_iff) arith
  then show ?thesis
    by (auto simp: hexdigit_def hexval_def)
qed

lemma hex4_of_byte:
  "n < 256 \<Longrightarrow> hex4 (CHR ''0'') (CHR ''0'') (hexdigit (n div 16)) (hexdigit (n mod 16)) = Some n"
proof -
  assume n: "n < 256"
  then have "n div 16 < 16" by simp
  moreover have "n mod 16 < 16" by simp
  moreover have "hexval (CHR ''0'') = Some 0" by (simp add: hexval_def)
  ultimately show ?thesis
    by (simp add: hex4_def hexval_hexdigit)
qed

declare parse_items.simps [simp del]

lemma scanstring_encode_char:
  "scanstring (encode_char c @ t) = cons_result c (scanstring t)"
proof -
  have lt: "(of_char c :: nat) < 256"
    by (rule nat_of_char_less_256)
  show ?thesis
    unfolding encode_char_def Let_def
    using hex4_of_byte [OF lt] lt by (auto simp: unescape_def)
qed

lemma scanstring_encoded:
  "scanstring (concat (map encode_char s) @ CHR 0x22 # rest) = Some (s, rest)"
proof (induction s)
  case Nil
  show ?case by simp
next
  case (Cons c s)
  have "scanstring (concat (map encode_char (c # s)) @ CHR 0x22 # rest)
      = scanstring (encode_char c @ (concat (map encode_char s) @ CHR 0x22 # rest))"
    by simp
  also have "\<dots> = cons_result c (scanstring (concat (map encode_char s) @ CHR 0x22 # rest))"
    by (rule scanstring_encode_char)
  also have "\<dots> = Some (c # s, rest)"
    by (simp add: Cons.IH cons_result_def)
  finally show ?case .
qed

lemma joined_starts_with_quote:
  "\<exists>t. join '', '' (map encode_str (y # ys)) @ e = CHR 0x22 # t"
  by (cases ys) (simp_all add: encode_str_def)

lemma parse_items_last:
  "parse_items (encode_str x @ CHR '']'' # rest) = Some ([x], rest)"
  by (subst parse_items.simps)
     (simp add: encode_str_def scanstring_encoded skip_ws_def json_space_def)

lemma parse_items_more:
  assumes "parse_items (CHR 0x22 # t) = Some (xs, rest)"
  shows "parse_items (encode_str x @ '', '' @ CHR 0x22 # t) = Some (x # xs, rest)"
  by (subst parse_items.simps)
     (simp add: encode_str_def scanstring_encoded skip_ws_def json_space_def assms)

lemma parse_items_joined:
  "parse_items (join '', '' (map encode_str (x # xs)) @ CHR '']'' # rest) = Some (x # xs, rest)"
proof (induction xs arbitrary: x)
  case Nil
  show ?case
    using parse_items_last [of x rest] by simp
next
  case (Cons y ys)
  obtain t where t: "join '', '' (map encode_str (y # ys)) @ CHR '']'' # rest = CHR 0x22 # t"
    using joined_starts_with_quote by blast
  have "parse_items (CHR 0x22 # t) = Some (y # ys, rest)"
    using Cons.IH [of y] t by simp
  then have "parse_items (encode_str x @ '', '' @ CHR 0x22 # t) = Some (x # y # ys, rest)"
    by (rule parse_items_more)
  moreover have "join '', '' (map encode_str (x # y # ys)) @ CHR '']'' # rest
      = encode_str x @ '', '' @ CHR 0x22 # t"
    using t by simp
  ultimately show ?case
    by simp
qed

theorem loads_dumps: "json_loads_list (json_dumps_list xs) = Inr xs"
proof (cases xs)
  case Nil
  then show ?thesis
    by (simp add: json_loads_list_def json_dumps_list_def skip_ws_def json_space_def parse_array_def)
next
  case (Cons y ys)
  obtain t where t: "join '', '' (map encode_str (y # ys)) @ '']'' = CHR 0x22 # t"
    using joined_starts_with_quote by blast
  have "parse_items (CHR 0x22 # t) = Some (y # ys, [])"
    using parse_items_joined [of y ys "[]"] t by simp
  then have "parse_array (CHR 0x22 # t) = Some (y # ys, [])"
    by (simp add: parse_array_def skip_ws_def json_space_def)
  then have "json_loads_list (CHR ''['' # CHR 0x22 # t) = Inr (y # ys)"
    by (simp add: json_loads_list_def skip_ws_def json_space_def)
  moreover have "json_dumps_list xs = CHR ''['' # CHR 0x22 # t"
    using t by (simp add: json_dumps_list_def Cons)
  ultimately show ?thesis
    using Cons by simp
qed

subsection \<open>Writing a session\<close>

lemma encoded_list_dumps: "encoded_list (json_dumps_list v)"
  by (simp add: encoded_list_def loads_dumps)

lemma loads_encoded: "encoded_list col \<Longrightarrow> json_loads_list col = Inr (projr (json_loads_list col))"
  by (cases "json_loads_list col") (simp_all add: encoded_list_def)

lemma new_row_stored: "stored_as i (new_row cur i k d nm) d \<longleftrightarrow> d_candidate_name d = Some nm"
  by (auto simp: stored_as_def new_row_def)

lemma insert_result_Inr:
  "insert_result cur i k d = Inr cur' \<longleftrightarrow>
     (\<exists>nm. d_candidate_name d = Some nm
        \<and> cur' = cur \<lparr> results := results cur @ [new_row cur i k d nm],
                      results_seq := results_seq cur + 1 \<rparr>)"
  by (auto simp: insert_result_def split: option.splits)

lemma insert_result_Inl:
  "insert_result cur i k d = Inl e \<longleftrightarrow> d_candidate_name d = None \<and> e = IntegrityError"
  by (auto simp: insert_result_def split: option.splits)

lemma insert_results_Inr:
  assumes "insert_results cur i k ds = Inr cur'"
  shows "sessions cur' = sessions cur \<and> sessions_seq cur' = sessions_seq cur
     \<and> (\<exists>new. results cur' = results cur @ new
           \<and> list_all2 (stored_as i) new ds
           \<and> map r_rank new = [k ..< k + length ds])"
  using assms
proof (induction ds arbitrary: cur k)
  case Nil
  then show ?case by simp
next
  case (Cons d ds)
  from Cons.prems obtain mid where mid: "insert_result cur i k d = Inr mid"
    and rest: "insert_results mid i (Suc k) ds = Inr cur'"
    by (auto simp: and_then_eq_Inr)
  from mid obtain nm where nm: "d_candidate_name d = Some nm"
    and mid_eq: "mid = cur \<lparr> results := results cur @ [new_row cur i k d nm],
                      results_seq := results_seq cur + 1 \<rparr>"
    by (auto simp: insert_result_Inr)
  from Cons.IH [OF rest] obtain new where s: "sessions cur' = sessions mid"
    and q: "sessions_seq cur' = sessions_seq mid"
    and r: "results cur' = results mid @ new"
    and st: "list_all2 (stored_as i) new ds"
    and rk: "map r_rank new = [Suc k ..< Suc k + length ds]"
    by blast
  have "results cur' = results cur @ (new_row cur i k d nm # new)"
    using r mid_eq by simp
  moreover have "list_all2 (stored_as i) (new_row cur i k d nm # new) (d # ds)"
    using st nm by (simp add: new_row_stored)
  moreover have "map r_rank (new_row cur i k d nm # new) = [k ..< k + length (d # ds)]"
  proof -
    have "[k ..< k + length (d # ds)] = k # [Suc k ..< Suc k + length ds]"
      by (subst upt_rec) simp
    then show ?thesis
      using rk by (simp add: new_row_def)
  qed
  ultimately show ?case
    using s q mid_eq by auto
qed

lemma insert_results_succeeds:
  "(\<exists>cur'. insert_results cur i k ds = Inr cur') \<longleftrightarrow> (\<forall>d \<in> set ds. d_candidate_name d \<noteq> None)"
proof (induction ds arbitrary: cur k)
  case Nil
  show ?case by simp
next
  case (Cons d ds)
  show ?case
  proof (cases "d_candidate_name d")
    case None
    then have "insert_result cur i k d = Inl IntegrityError"
      by (simp add: insert_result_Inl)
    then show ?thesis
      using None by simp
  next
    case (Some nm)
    then have "insert_result cur i k d
        = Inr (cur \<lparr> results := results cur @ [new_row cur i k d nm],
                      results_seq := results_seq cur + 1 \<rparr>)"
      by (simp add: insert_result_def)
    then show ?thesis
      using Some Cons.IH by simp
  qed
qed

lemma save_session_Inr:
  assumes "save_session d now jt co rs = Inr (d', i)"
  shows "i = sessions_seq d + 1 \<and> sessions_seq d' = i
     \<and> sessions d' = sessions d @
          [\<lparr> s_id = i, s_job_title = jt, s_company = co, s_timestamp = now,
             s_is_hidden = 0, s_total_candidates = length rs \<rparr>]
     \<and> (\<exists>new. results d' = results d @ new
           \<and> list_all2 (stored_as i) new rs
           \<and> map r_rank new = [1 ..< Suc (length rs)])"
proof -
  let ?cur = "d \<lparr> sessions := sessions d @
          [\<lparr> s_id = sessions_seq d + 1, s_job_title = jt, s_company = co, s_timestamp = now,
             s_is_hidden = 0, s_total_candidates = length rs \<rparr>],
        sessions_seq := sessions_seq d + 1 \<rparr>"
  from assms have i: "i = sessions_seq d + 1"
    and ins: "insert_results ?cur (sessions_seq d + 1) 1 rs = Inr d'"
    by (auto simp: save_session_def Let_def and_then_eq_Inr)
  from insert_results_Inr [OF ins] i show ?thesis
    by auto
qed

lemma save_session_succeeds:
  "(\<exists>d' i. save_session d now jt co rs = Inr (d', i)) \<longleftrightarrow> (\<forall>r \<in> set rs. d_candidate_name r \<noteq> None)"
  unfolding save_session_def Let_def and_then_eq_Inr
  using insert_results_succeeds by auto

lemma stored_rows:
  "list_all2 (stored_as i) new rs \<Longrightarrow>
   \<forall>r \<in> set new. r_session_id r = i \<and> encoded_list (r_strengths r) \<and> encoded_list (r_weaknesses r)"
  by (induction rule: list_all2_induct) (auto simp: stored_as_def encoded_list_dumps)

lemma stored_rows_columns:
  "list_all2 (stored_as i) new rs \<Longrightarrow>
   map r_strengths new = map (\<lambda>r. json_dumps_list (get_list (d_strengths r))) rs
   \<and> map r_weaknesses new = map (\<lambda>r. json_dumps_list (get_list (d_weaknesses r))) rs"
  by (induction rule: list_all2_induct) (auto simp: stored_as_def)

lemma filter_all: "\<forall>x \<in> set xs. P x \<Longrightarrow> filter P xs = xs"
  by (induction xs) auto

lemma filter_none: "\<forall>x \<in> set xs. \<not> P x \<Longrightarrow> filter P xs = []"
  by (induction xs) auto

lemma wf_db_save_session:
  assumes wf: "wf_db d" and save: "save_session d now jt co rs = Inr (d', i)"
  shows "wf_db d'"
    and "rows_of d i = []"
    and "\<forall>j. j \<noteq> i \<longrightarrow> rows_of d' j = rows_of d j"
    and "list_all2 (stored_as i) (rows_of d' i) rs"
    and "map r_rank (rows_of d' i) = [1 ..< Suc (length rs)]"
proof -
  from save_session_Inr [OF save] obtain new where i: "i = sessions_seq d + 1"
    and seq: "sessions_seq d' = i"
    and ss: "sessions d' = sessions d @
          [\<lparr> s_id = i, s_job_title = jt, s_company = co, s_timestamp = now,
             s_is_hidden = 0, s_total_candidates = length rs \<rparr>]"
    and rr: "results d' = results d @ new"
    and st: "list_all2 (stored_as i) new rs"
    and rk: "map r_rank new = [1 ..< Suc (length rs)]"
    by blast
  from wf have ids: "\<forall>s \<in> set (sessions d). s_id s \<le> sessions_seq d"
    and dist: "distinct (map s_id (sessions d))"
    and own: "\<forall>r \<in> set (results d). r_session_id r \<in> s_id ` set (sessions d)"
    and ranks: "\<forall>s \<in> set (sessions d).
        map r_rank (rows_of d (s_id s)) = [1 ..< Suc (s_total_candidates s)]"
    and enc: "\<forall>r \<in> set (results d). encoded_list (r_strengths r) \<and> encoded_list (r_weaknesses r)"
    by (auto simp: wf_db_def)
  have fresh: "\<forall>s \<in> set (sessions d). s_id s \<noteq> i"
    using ids i by fastforce
  have old_rows: "\<forall>r \<in> set (results d). r_session_id r \<noteq> i"
    using own fresh by fastforce
  have new_rows: "\<forall>r \<in> set new. r_session_id r = i
      \<and> encoded_list (r_strengths r) \<and> encoded_list (r_weaknesses r)"
    using stored_rows [OF st] .
  show none: "rows_of d i = []"
    using old_rows by (simp add: rows_of_def filter_none)
  have mine: "rows_of d' i = new"
    using none new_rows by (simp add: rows_of_def rr filter_all)
  show other: "\<forall>j. j \<noteq> i \<longrightarrow> rows_of d' j = rows_of d j"
    using new_rows by (simp add: rows_of_def rr filter_none)
  show "list_all2 (stored_as i) (rows_of d' i) rs"
    using st mine by simp
  show "map r_rank (rows_of d' i) = [1 ..< Suc (length rs)]"
    using rk mine by simp
  show "wf_db d'"
    unfolding wf_db_def
  proof (intro conjI)
    show "\<forall>s \<in> set (sessions d'). s_id s \<le> sessions_seq d'"
      using ids i seq ss by fastforce
    show "distinct (map s_id (sessions d'))"
      using dist fresh ss by auto
    show "\<forall>r \<in> set (results d'). r_session_id r \<in> s_id ` set (sessions d')"
      using own new_rows rr ss by auto
    show "\<forall>s \<in> set (sessions d').
        map r_rank (rows_of d' (s_id s)) = [1 ..< Suc (s_total_candidates s)]"
      using ranks fresh other mine rk ss by auto
    show "\<forall>r \<in> set (results d'). encoded_list (r_strengths r) \<and> encoded_list (r_weaknesses r)"
      using enc new_rows rr by auto
  qed
qed

lemma wf_db_cong:
  assumes key: "map (\<lambda>s. (s_id s, s_total_candidates s)) (sessions d')
      = map (\<lambda>s. (s_id s, s_total_candidates s)) (sessions d)"
    and res: "results d' = results d" and seq: "sessions_seq d' = sessions_seq d"
    and wf: "wf_db d"
  shows "wf_db d'"
proof -
  have "map fst (map (\<lambda>s. (s_id s, s_total_candidates s)) (sessions d'))
      = map fst (map (\<lambda>s. (s_id s, s_total_candidates s)) (sessions d))"
    using key by simp
  then have ids: "map s_id (sessions d') = map s_id (sessions d)"
    by (simp add: comp_def)
  then have idset: "s_id ` set (sessions d') = s_id ` set (sessions d)"
    by (metis set_map)
  have "set (map (\<lambda>s. (s_id s, s_total_candidates s)) (sessions d'))
      = set (map (\<lambda>s. (s_id s, s_total_candidates s)) (sessions d))"
    using key by simp
  then have pairs: "(\<lambda>s. (s_id s, s_total_candidates s)) ` set (sessions d')
      = (\<lambda>s. (s_id s, s_total_candidates s)) ` set (sessions d)"
    by simp
  have older: "\<exists>t \<in> set (sessions d). s_id t = s_id s \<and> s_total_candidates t = s_total_candidates s"
    if "s \<in> set (sessions d')" for s
  proof -
    from that have "(s_id s, s_total_candidates s)
        \<in> (\<lambda>s. (s_id s, s_total_candidates s)) ` set (sessions d)"
      using pairs by blast
    then show ?thesis by auto
  qed
  from wf have a: "\<forall>s \<in> set (sessions d). s_id s \<le> sessions_seq d"
    and b: "distinct (map s_id (sessions d))"
    and c: "\<forall>r \<in> set (results d). r_session_id r \<in> s_id ` set (sessions d)"
    and e: "\<forall>s \<in> set (sessions d).
        map r_rank (rows_of d (s_id s)) = [1 ..< Suc (s_total_candidates s)]"
    and f: "\<forall>r \<in> set (results d). encoded_list (r_strengths r) \<and> encoded_list (r_weaknesses r)"
    by (auto simp: wf_db_def)
  have rows: "rows_of d' j = rows_of d j" for j
    by (simp add: rows_of_def res)
  show ?thesis
    unfolding wf_db_def
  proof (intro conjI)
    show "\<forall>s \<in> set (sessions d'). s_id s \<le> sessions_seq d'"
      using a older seq by metis
    show "distinct (map s_id (sessions d'))"
      using b ids by simp
    show "\<forall>r \<in> set (results d'). r_session_id r \<in> s_id ` set (sessions d')"
      using c idset res by simp
    show "\<forall>s \<in> set (sessions d').
        map r_rank (rows_of d' (s_id s)) = [1 ..< Suc (s_total_candidates s)]"
      using e older rows by metis
    show "\<forall>r \<in> set (results d'). encoded_list (r_strengths r) \<and> encoded_list (r_weaknesses r)"
      using f res by simp
  qed
qed

lemma wf_db_hide: "wf_db d \<Longrightarrow> wf_db (hide_session d i)"
  by (rule wf_db_cong [of _ d]) (simp_all add: hide_session_def comp_def)

lemma wf_db_unhide: "wf_db d \<Longrightarrow> wf_db (unhide_session d i)"
  by (rule wf_db_cong [of _ d]) (simp_all add: unhide_session_def comp_def)

lemma wf_db_clear: "wf_db d \<Longrightarrow> wf_db (clear_all_history d)"
  by (simp add: wf_db_def clear_all_history_def)

lemma rows_of_delete_rows:
  "rows_of (delete_rows d i) j = (if j = i then [] else rows_of d j)"
proof -
  have "filter (\<lambda>r. r_session_id r = j) (filter (\<lambda>r. r_session_id r \<noteq> i) (results d))
      = filter (\<lambda>r. r_session_id r = j \<and> r_session_id r \<noteq> i) (results d)"
    by (simp add: conj_commute)
  also have "\<dots> = (if j = i then [] else filter (\<lambda>r. r_session_id r = j) (results d))"
    by (auto intro: filter_cong)
  finally show ?thesis
    by (simp add: rows_of_def delete_rows_def)
qed

lemma wf_db_delete_rows:
  assumes wf: "wf_db d"
  shows "wf_db (delete_rows d i)"
proof -
  from wf have a: "\<forall>s \<in> set (sessions d). s_id s \<le> sessions_seq d"
    and b: "distinct (map s_id (sessions d))"
    and c: "\<forall>r \<in> set (results d). r_session_id r \<in> s_id ` set (sessions d)"
    and e: "\<forall>s \<in> set (sessions d).
        map r_rank (rows_of d (s_id s)) = [1 ..< Suc (s_total_candidates s)]"
    and f: "\<forall>r \<in> set (results d). encoded_list (r_strengths r) \<and> encoded_list (r_weaknesses r)"
    by (auto simp: wf_db_def)
  have ss: "sessions (delete_rows d i) = filter (\<lambda>s. s_id s \<noteq> i) (sessions d)"
    and rr: "results (delete_rows d i) = filter (\<lambda>r. r_session_id r \<noteq> i) (results d)"
    and qq: "sessions_seq (delete_rows d i) = sessions_seq d"
    by (simp_all add: delete_rows_def)
  show ?thesis
    unfolding wf_db_def
  proof (intro conjI)
    show "\<forall>s \<in> set (sessions (delete_rows d i)). s_id s \<le> sessions_seq (delete_rows d i)"
      using a by (simp add: ss qq)
    show "distinct (map s_id (sessions (delete_rows d i)))"
      using b by (simp add: ss distinct_map_filter)
    show "\<forall>r \<in> set (results (delete_rows d i)).
        r_session_id r \<in> s_id ` set (sessions (delete_rows d i))"
      using c by (auto simp: ss rr)
    show "\<forall>s \<in> set (sessions (delete_rows d i)).
        map r_rank (rows_of (delete_rows d i) (s_id s)) = [1 ..< Suc (s_total_candidates s)]"
      using e by (simp add: ss rows_of_delete_rows)
    show "\<forall>r \<in> set (results (delete_rows d i)).
        encoded_list (r_strengths r) \<and> encoded_list (r_weaknesses r)"
      using f by (simp add: rr)
  qed
qed

lemma sqlite_int_cases:
  "sqlite_int i \<Longrightarrow> delete_session d i = Inr (delete_rows d i)"
  "\<not> sqlite_int i \<Longrightarrow> delete_session d i = Inl OverflowError"
  "\<not> sqlite_int i \<Longrightarrow> get_session_results d i = Inl OverflowError"
  "\<not> sqlite_int i \<or> \<not> sqlite_int n \<Longrightarrow> get_top_candidates d i n = Inl OverflowError"
  by (auto simp: delete_session_def get_session_results_def get_top_candidates_def)

lemma apply_op_delete:
  "apply_op d (DeleteSession i) = (if sqlite_int i then delete_rows d i else d)"
  by (simp add: delete_session_def)

lemma wf_db_delete: "wf_db d \<Longrightarrow> wf_db (apply_op d (DeleteSession i))"
  unfolding apply_op_delete by (simp add: wf_db_delete_rows)

lemma wf_db_init: "wf_db init_database"
  by (simp add: wf_db_def init_database_def)

lemma wf_db_apply_op: "wf_db d \<Longrightarrow> wf_db (apply_op d x)"
proof (cases x)
  case (SaveSession now jt co rs)
  assume wf: "wf_db d"
  show ?thesis
  proof (cases "save_session d now jt co rs")
    case (Inl e)
    then show ?thesis using wf SaveSession by simp
  next
    case (Inr p)
    then obtain d' i where "save_session d now jt co rs = Inr (d', i)"
      by (cases p) simp
    then show ?thesis
      using wf_db_save_session(1) [OF wf] SaveSession by simp
  qed
qed (simp_all add: wf_db_hide wf_db_unhide wf_db_delete wf_db_clear del: apply_op.simps(4))

lemma wf_db_foldl: "wf_db d \<Longrightarrow> wf_db (foldl apply_op d ops)"
  by (induction ops arbitrary: d) (simp_all add: wf_db_apply_op)

lemma wf_db_run: "wf_db (run ops)"
  by (simp add: run_def wf_db_foldl wf_db_init)

lemma run_snoc: "run (ops @ [x]) = apply_op (run ops) x"
  by (simp add: run_def)

subsection \<open>Reading a session\<close>

lemma decode_row_encoded:
  assumes "encoded_list (r_strengths row)" and "encoded_list (r_weaknesses row)"
  shows "decode_row row = Inr (decoded row)"
proof -
  from assms(1) obtain v where v: "json_loads_list (r_strengths row) = Inr v"
    by (cases "json_loads_list (r_strengths row)") (simp_all add: encoded_list_def)
  from assms(2) obtain w where w: "json_loads_list (r_weaknesses row) = Inr w"
    by (cases "json_loads_list (r_weaknesses row)") (simp_all add: encoded_list_def)
  show ?thesis
    by (simp add: decode_row_def decoded_def v w)
qed

lemma decode_rows_encoded:
  "\<forall>r \<in> set rows. encoded_list (r_strengths r) \<and> encoded_list (r_weaknesses r) \<Longrightarrow>
   decode_rows rows = Inr (map decoded rows)"
  by (induction rows) (simp_all add: decode_row_encoded)

lemma select_results_wf:
  assumes "wf_db d" and "s \<in> set (sessions d)"
  shows "select_results d (s_id s) = rows_of d (s_id s)"
proof -
  from assms have "map r_rank (rows_of d (s_id s)) = [1 ..< Suc (s_total_candidates s)]"
    by (simp add: wf_db_def)
  then have "sorted (map r_rank (rows_of d (s_id s)))"
    by (metis sorted_upt)
  then show ?thesis
    unfolding select_results_def rows_of_def [symmetric]
    by (rule sort_key_id_if_sorted)
qed

lemma select_results_encoded:
  assumes "wf_db d"
  shows "\<forall>r \<in> set (sql_limit n (select_results d i)).
     encoded_list (r_strengths r) \<and> encoded_list (r_weaknesses r)"
proof -
  have "set (sql_limit n (select_results d i)) \<subseteq> set (results d)"
    by (auto simp: sql_limit_def select_results_def dest: in_set_takeD)
  then show ?thesis
    using assms by (auto simp: wf_db_def)
qed

lemma select_results_unknown:
  assumes "wf_db d" and "i \<notin> s_id ` set (sessions d)"
  shows "select_results d i = []"
proof -
  from assms have "\<forall>r \<in> set (results d). r_session_id r \<noteq> i"
    by (auto simp: wf_db_def)
  then show ?thesis
    by (simp add: select_results_def filter_none)
qed

lemma filter_key_distinct:
  "distinct (map f xs) \<Longrightarrow> x \<in> set xs \<Longrightarrow> filter (\<lambda>t. f t = f x) xs = [x]"
proof (induction xs)
  case Nil
  then show ?case by simp
next
  case (Cons t ts)
  show ?case
  proof (cases "t = x")
    case True
    then have "\<forall>u \<in> set ts. f u \<noteq> f x"
      using Cons.prems(1) by (auto simp: image_iff)
    then show ?thesis
      using True by (simp add: filter_none)
  next
    case False
    then have "x \<in> set ts" and "f t \<noteq> f x"
      using Cons.prems by auto
    then show ?thesis
      using Cons by simp
  qed
qed

lemma decode_limit_wf:
  "wf_db d \<Longrightarrow> decode_rows (sql_limit n (select_results d i))
     = Inr (map decoded (sql_limit n (select_results d i)))"
  by (simp add: decode_rows_encoded select_results_encoded)

lemma get_top_candidates_wf:
  "wf_db d \<Longrightarrow> sqlite_int i \<Longrightarrow> sqlite_int n \<Longrightarrow>
   get_top_candidates d i n = Inr (map decoded (sql_limit n (select_results d i)))"
  by (simp add: get_top_candidates_def decode_limit_wf)

lemma sql_limit_all: "sql_limit n (select_results d i) = select_results d i"
  if "n < 0"
  using that by (simp add: sql_limit_def)

lemma get_session_results_wf:
  assumes wf: "wf_db d" and s: "s \<in> set (sessions d)" and r: "sqlite_int (s_id s)"
  shows "get_session_results d (s_id s) = Inr (s, map decoded (rows_of d (s_id s)))"
proof -
  have "filter (\<lambda>t. s_id t = s_id s) (sessions d) = [s]"
    using wf s by (simp add: wf_db_def filter_key_distinct)
  moreover have "decode_rows (select_results d (s_id s)) = Inr (map decoded (rows_of d (s_id s)))"
    using decode_limit_wf [OF wf, of "- 1" "s_id s"] select_results_wf [OF wf s]
    by (simp add: sql_limit_def)
  ultimately show ?thesis
    using r by (simp add: get_session_results_def)
qed

lemma get_session_results_unknown:
  "sqlite_int i \<Longrightarrow> i \<notin> s_id ` set (sessions d) \<Longrightarrow> get_session_results d i = Inl TypeError"
proof -
  assume r: "sqlite_int i" and "i \<notin> s_id ` set (sessions d)"
  then have "filter (\<lambda>s. s_id s = i) (sessions d) = []"
    by (auto simp: filter_empty_conv)
  then show ?thesis
    using r by (simp add: get_session_results_def)
qed

lemma sql_limit_map: "sql_limit n (map f xs) = map f (sql_limit n xs)"
  by (simp add: sql_limit_def take_map)

subsection \<open>The claims about the store\<close>

text \<open>
  Claim C3. After every sequence of store operations, every session row has as many
  result rows as its \<open>total_candidates\<close> field says. A \<open>save_session\<close> that returns
  has written, as one step of the store, one session row with a new id above every
  existing id and \<open>total_candidates\<close> the number of results supplied, and exactly that
  many result rows, which hold the supplied records in the supplied order with the
  ranks 1, 2, ...; the rows of the other sessions are as before. A \<open>save_session\<close>
  that raises has written nothing. It returns exactly when every supplied record has
  a candidate name.
\<close>

theorem create_session_all_or_nothing:
  "(\<forall>s \<in> set (sessions (run ops)). length (rows_of (run ops) (s_id s)) = s_total_candidates s)
   \<and> (\<forall>d' i. save_session (run ops) now jt co rs = Inr (d', i) \<longrightarrow>
        run (ops @ [SaveSession now jt co rs]) = d'
        \<and> (\<forall>s \<in> set (sessions (run ops)). s_id s < i)
        \<and> filter (\<lambda>s. s_id s = i) (sessions d') =
            [\<lparr> s_id = i, s_job_title = jt, s_company = co, s_timestamp = now,
               s_is_hidden = 0, s_total_candidates = length rs \<rparr>]
        \<and> length (rows_of d' i) = length rs
        \<and> map r_rank (rows_of d' i) = [1 ..< Suc (length rs)]
        \<and> list_all2 (stored_as i) (rows_of d' i) rs
        \<and> (\<forall>j. j \<noteq> i \<longrightarrow> rows_of d' j = rows_of (run ops) j))
   \<and> (\<forall>e. save_session (run ops) now jt co rs = Inl e \<longrightarrow>
        run (ops @ [SaveSession now jt co rs]) = run ops)
   \<and> ((\<exists>d' i. save_session (run ops) now jt co rs = Inr (d', i))
        = (\<forall>r \<in> set rs. d_candidate_name r \<noteq> None))"
proof (intro conjI allI impI ballI)
  fix s assume s: "s \<in> set (sessions (run ops))"
  then have "map r_rank (rows_of (run ops) (s_id s)) = [1 ..< Suc (s_total_candidates s)]"
    using wf_db_run [of ops] by (simp add: wf_db_def)
  then have "length (map r_rank (rows_of (run ops) (s_id s))) = length [1 ..< Suc (s_total_candidates s)]"
    by (rule arg_cong)
  then show "length (rows_of (run ops) (s_id s)) = s_total_candidates s"
    by simp
next
  fix d' i assume save: "save_session (run ops) now jt co rs = Inr (d', i)"
  note w = wf_db_save_session [OF wf_db_run save]
  note r = save_session_Inr [OF save]
  show "run (ops @ [SaveSession now jt co rs]) = d'"
    by (simp add: run_snoc save)
  have ids: "\<forall>s \<in> set (sessions (run ops)). s_id s \<le> sessions_seq (run ops)"
    using wf_db_run [of ops] by (simp add: wf_db_def)
  { fix s assume "s \<in> set (sessions (run ops))"
    then show "s_id s < i"
      using ids r by fastforce }
  then have "filter (\<lambda>s. s_id s = i) (sessions (run ops)) = []"
    by (auto simp: filter_empty_conv)
  then show "filter (\<lambda>s. s_id s = i) (sessions d') =
            [\<lparr> s_id = i, s_job_title = jt, s_company = co, s_timestamp = now,
               s_is_hidden = 0, s_total_candidates = length rs \<rparr>]"
    using r by simp
  show "list_all2 (stored_as i) (rows_of d' i) rs"
    by (rule w(4))
  then show "length (rows_of d' i) = length rs"
    by (rule list_all2_lengthD)
  show "map r_rank (rows_of d' i) = [1 ..< Suc (length rs)]"
    by (rule w(5))
  { fix j assume "j \<noteq> i"
    then show "rows_of d' j = rows_of (run ops) j"
      using w(3) by simp }
next
  fix e assume "save_session (run ops) now jt co rs = Inl e"
  then show "run (ops @ [SaveSession now jt co rs]) = run ops"
    by (simp add: run_snoc)
next
  show "(\<exists>d' i. save_session (run ops) now jt co rs = Inr (d', i))
        = (\<forall>r \<in> set rs. d_candidate_name r \<noteq> None)"
    by (rule save_session_succeeds)
qed

text \<open>
  Claim C10. After every sequence of store operations, every result row carries the
  id of a session row of the store. \<open>save_session\<close> appends one session row and gives
  its id to each result row it appends; \<open>delete_session\<close> returns for every id that
  SQLite can hold, and when it returns it leaves neither a session row nor a result
  row of the deleted id; \<open>clear_all_history\<close> leaves no row at all.
\<close>

theorem no_orphan_results:
  "(\<forall>r \<in> set (results (run ops)). \<exists>s \<in> set (sessions (run ops)). s_id s = r_session_id r)
   \<and> (\<forall>d' i. save_session (run ops) now jt co rs = Inr (d', i) \<longrightarrow>
        (\<exists>s new. sessions d' = sessions (run ops) @ [s] \<and> s_id s = i
            \<and> results d' = results (run ops) @ new \<and> length new = length rs
            \<and> (\<forall>r \<in> set new. r_session_id r = i)))
   \<and> (sqlite_int j \<longrightarrow> (\<exists>d'. delete_session d j = Inr d'))
   \<and> (\<forall>d'. delete_session d j = Inr d' \<longrightarrow>
        rows_of d' j = [] \<and> j \<notin> s_id ` set (sessions d'))
   \<and> results (clear_all_history d) = [] \<and> sessions (clear_all_history d) = []"
proof (intro conjI allI impI)
  show "\<forall>r \<in> set (results (run ops)). \<exists>s \<in> set (sessions (run ops)). s_id s = r_session_id r"
  proof
    fix r assume "r \<in> set (results (run ops))"
    moreover have "\<forall>r \<in> set (results (run ops)). r_session_id r \<in> s_id ` set (sessions (run ops))"
      using wf_db_run [of ops] by (simp add: wf_db_def)
    ultimately have "r_session_id r \<in> s_id ` set (sessions (run ops))"
      by blast
    then show "\<exists>s \<in> set (sessions (run ops)). s_id s = r_session_id r"
      by (metis imageE)
  qed
next
  fix d' i assume save: "save_session (run ops) now jt co rs = Inr (d', i)"
  from save_session_Inr [OF save] obtain new where
    ss: "sessions d' = sessions (run ops) @
          [\<lparr> s_id = i, s_job_title = jt, s_company = co, s_timestamp = now,
             s_is_hidden = 0, s_total_candidates = length rs \<rparr>]"
    and rr: "results d' = results (run ops) @ new"
    and st: "list_all2 (stored_as i) new rs"
    by blast
  have "length new = length rs"
    using st by (rule list_all2_lengthD)
  moreover have "\<forall>r \<in> set new. r_session_id r = i"
    using stored_rows [OF st] by simp
  ultimately show "\<exists>s new. sessions d' = sessions (run ops) @ [s] \<and> s_id s = i
            \<and> results d' = results (run ops) @ new \<and> length new = length rs
            \<and> (\<forall>r \<in> set new. r_session_id r = i)"
    using ss rr by auto
next
  assume "sqlite_int j"
  then show "\<exists>d'. delete_session d j = Inr d'"
    by (simp add: delete_session_def)
next
  fix d' assume "delete_session d j = Inr d'"
  then have d': "d' = delete_rows d j"
    by (simp add: delete_session_def split: if_splits)
  show "rows_of d' j = []"
    unfolding d' by (simp add: rows_of_delete_rows)
  show "j \<notin> s_id ` set (sessions d')"
    unfolding d' by (auto simp: delete_rows_def)
next
  show "results (clear_all_history d) = []" and "sessions (clear_all_history d) = []"
    by (simp_all add: clear_all_history_def)
qed

text \<open>
  Claim C4, as amended. For an id that SQLite can hold (a signed 64-bit integer) and
  that has no session row, \<open>get_session_results\<close> returns no data: it raises (the
  \<open>TypeError\<close> of \<open>dict(None)\<close>; the code has no error of its own for a missing
  session). For an id in this range \<open>delete_session\<close> returns; afterwards
  \<open>get_session_results\<close> on the id raises in the same way, the session row and all
  result rows of the id are gone, the other sessions are as they were, and a second
  call returns and changes nothing. On a store reached by store operations a call on
  an id of this range without a session row returns and changes nothing. For an id
  outside the range both functions raise \<open>OverflowError\<close>, and the store is left as it
  was.
\<close>

theorem get_after_delete_not_found:
  "(sqlite_int i \<and> i \<notin> s_id ` set (sessions d) \<longrightarrow> get_session_results d i = Inl TypeError)
   \<and> (sqlite_int i \<longrightarrow>
        (\<exists>d'. delete_session d i = Inr d'
           \<and> get_session_results d' i = Inl TypeError
           \<and> rows_of d' i = []
           \<and> i \<notin> s_id ` set (sessions d')
           \<and> (\<forall>j. j \<noteq> i \<longrightarrow> rows_of d' j = rows_of d j
                 \<and> filter (\<lambda>s. s_id s = j) (sessions d') = filter (\<lambda>s. s_id s = j) (sessions d))
           \<and> delete_session d' i = Inr d'))
   \<and> (sqlite_int i \<and> i \<notin> s_id ` set (sessions (run ops)) \<longrightarrow>
        delete_session (run ops) i = Inr (run ops))
   \<and> (\<not> sqlite_int i \<longrightarrow>
        get_session_results d i = Inl OverflowError
        \<and> delete_session d i = Inl OverflowError
        \<and> run (ops @ [DeleteSession i]) = run ops)"
proof (intro conjI impI)
  assume "sqlite_int i \<and> i \<notin> s_id ` set (sessions d)"
  then show "get_session_results d i = Inl TypeError"
    by (simp add: get_session_results_unknown)
next
  assume r: "sqlite_int i"
  let ?d = "delete_rows d i"
  have del: "delete_session d i = Inr ?d"
    using r by (simp add: delete_session_def)
  have gone: "i \<notin> s_id ` set (sessions ?d)"
    by (auto simp: delete_rows_def)
  have g: "get_session_results ?d i = Inl TypeError"
    using r gone by (rule get_session_results_unknown)
  have rows: "rows_of ?d i = []"
    by (simp add: rows_of_delete_rows)
  have others: "\<forall>j. j \<noteq> i \<longrightarrow> rows_of ?d j = rows_of d j
      \<and> filter (\<lambda>s. s_id s = j) (sessions ?d) = filter (\<lambda>s. s_id s = j) (sessions d)"
  proof (intro allI impI conjI)
    fix j assume j: "j \<noteq> i"
    then show "rows_of ?d j = rows_of d j"
      by (simp add: rows_of_delete_rows)
    have "filter (\<lambda>s. s_id s = j) (filter (\<lambda>s. s_id s \<noteq> i) (sessions d))
        = filter (\<lambda>s. s_id s = j) (sessions d)"
      using j by (auto intro: filter_cong)
    then show "filter (\<lambda>s. s_id s = j) (sessions ?d) = filter (\<lambda>s. s_id s = j) (sessions d)"
      by (simp add: delete_rows_def)
  qed
  have again: "delete_session ?d i = Inr ?d"
    using r by (simp add: delete_session_def delete_rows_def)
  show "\<exists>d'. delete_session d i = Inr d'
           \<and> get_session_results d' i = Inl TypeError
           \<and> rows_of d' i = []
           \<and> i \<notin> s_id ` set (sessions d')
           \<and> (\<forall>j. j \<noteq> i \<longrightarrow> rows_of d' j = rows_of d j
                 \<and> filter (\<lambda>s. s_id s = j) (sessions d') = filter (\<lambda>s. s_id s = j) (sessions d))
           \<and> delete_session d' i = Inr d'"
    using del g rows gone others again by blast
next
  assume h: "sqlite_int i \<and> i \<notin> s_id ` set (sessions (run ops))"
  then have unknown: "i \<notin> s_id ` set (sessions (run ops))"
    by simp
  have "wf_db (run ops)"
    by (rule wf_db_run)
  then have "\<forall>r \<in> set (results (run ops)). r_session_id r \<noteq> i"
    using unknown by (auto simp: wf_db_def)
  then have "filter (\<lambda>r. r_session_id r \<noteq> i) (results (run ops)) = results (run ops)"
    by (simp add: filter_all)
  moreover have "filter (\<lambda>s. s_id s \<noteq> i) (sessions (run ops)) = sessions (run ops)"
    using unknown by (auto intro: filter_all)
  ultimately show "delete_session (run ops) i = Inr (run ops)"
    using h by (simp add: delete_session_def delete_rows_def)
next
  assume r: "\<not> sqlite_int i"
  then show "get_session_results d i = Inl OverflowError"
    by (simp add: get_session_results_def)
  from r show "delete_session d i = Inl OverflowError"
    by (simp add: delete_session_def)
  from r show "run (ops @ [DeleteSession i]) = run ops"
    by (simp add: run_snoc delete_session_def)
qed

lemma set_order_by: "set (order_by_timestamp_desc rows) = set rows"
  by (simp add: order_by_timestamp_desc_def)

lemma hide_row_fixed: "s_is_hidden s = v \<Longrightarrow> s \<lparr> s_is_hidden := v \<rparr> = s"
  by (cases s) simp

lemma flagged_row_listed:
  assumes "s \<in> set (sessions d)" and "s_id s = i"
  shows "s \<lparr> s_is_hidden := v \<rparr>
      \<in> set (map (\<lambda>t. if s_id t = i then t \<lparr> s_is_hidden := v \<rparr> else t) (sessions d))"
proof -
  have "(\<lambda>t. if s_id t = i then t \<lparr> s_is_hidden := v \<rparr> else t) s
      \<in> (\<lambda>t. if s_id t = i then t \<lparr> s_is_hidden := v \<rparr> else t) ` set (sessions d)"
    using assms(1) by (rule imageI)
  then show ?thesis
    using assms(2) by simp
qed

lemma hidden_listing:
  assumes s: "s \<in> set (sessions d)"
  shows "s_id s \<notin> s_id ` set (get_all_sessions (hide_session d (s_id s)) False)"
    and "s_id s \<in> s_id ` set (get_all_sessions (hide_session d (s_id s)) True)"
proof -
  show "s_id s \<notin> s_id ` set (get_all_sessions (hide_session d (s_id s)) False)"
    by (auto simp: get_all_sessions_def set_order_by hide_session_def)
  have hid: "s \<lparr> s_is_hidden := 1 \<rparr> \<in> set (sessions (hide_session d (s_id s)))"
    using flagged_row_listed [OF s refl, of 1] by (simp add: hide_session_def)
  have "s_id (s \<lparr> s_is_hidden := 1 \<rparr>)
      \<in> s_id ` set (get_all_sessions (hide_session d (s_id s)) True)"
    using hid unfolding get_all_sessions_def set_order_by if_True by (rule imageI)
  then show "s_id s \<in> s_id ` set (get_all_sessions (hide_session d (s_id s)) True)"
    by simp
qed

lemma visible_listing:
  assumes s: "s \<in> set (sessions d)"
  shows "s_id s \<in> s_id ` set (get_all_sessions (unhide_session d (s_id s)) False)"
    and "s_id s \<in> s_id ` set (get_all_sessions (unhide_session d (s_id s)) True)"
proof -
  have vis: "s \<lparr> s_is_hidden := 0 \<rparr> \<in> set (sessions (unhide_session d (s_id s)))"
    using flagged_row_listed [OF s refl, of 0] by (simp add: unhide_session_def)
  have "s_id (s \<lparr> s_is_hidden := 0 \<rparr>)
      \<in> s_id ` set (get_all_sessions (unhide_session d (s_id s)) True)"
    using vis unfolding get_all_sessions_def set_order_by if_True by (rule imageI)
  then show "s_id s \<in> s_id ` set (get_all_sessions (unhide_session d (s_id s)) True)"
    by simp
  have "s \<lparr> s_is_hidden := 0 \<rparr>
      \<in> set (filter (\<lambda>s. s_is_hidden s = 0) (sessions (unhide_session d (s_id s))))"
    using vis by simp
  then have "s_id (s \<lparr> s_is_hidden := 0 \<rparr>)
      \<in> s_id ` set (get_all_sessions (unhide_session d (s_id s)) False)"
    unfolding get_all_sessions_def set_order_by if_False by (rule imageI)
  then show "s_id s \<in> s_id ` set (get_all_sessions (unhide_session d (s_id s)) False)"
    by simp
qed

lemma hide_already_hidden:
  assumes h: "\<forall>s \<in> set (sessions d). s_id s = i \<longrightarrow> s_is_hidden s = v"
  shows "map (\<lambda>s. if s_id s = i then s \<lparr> s_is_hidden := v \<rparr> else s) (sessions d) = sessions d"
  using h by (intro map_idI) (simp add: hide_row_fixed)


text \<open>
  Claim C5. Hiding twice is hiding once, and so for unhiding; hiding changes nothing
  when every session row of the id is hidden already (in particular when there is
  none), and likewise unhiding. For every session row of the store: after
  \<open>hide_session\<close> its id is absent from the listing without hidden sessions and present
  in the listing with them, and after \<open>unhide_session\<close> it is present in both.
\<close>

theorem hide_unhide_toggle:
  "hide_session (hide_session d i) i = hide_session d i
   \<and> unhide_session (unhide_session d i) i = unhide_session d i
   \<and> ((\<forall>s \<in> set (sessions d). s_id s = i \<longrightarrow> s_is_hidden s = 1) \<longrightarrow> hide_session d i = d)
   \<and> ((\<forall>s \<in> set (sessions d). s_id s = i \<longrightarrow> s_is_hidden s = 0) \<longrightarrow> unhide_session d i = d)
   \<and> (\<forall>s \<in> set (sessions d).
         s_id s \<notin> s_id ` set (get_all_sessions (hide_session d (s_id s)) False)
       \<and> s_id s \<in> s_id ` set (get_all_sessions (hide_session d (s_id s)) True)
       \<and> s_id s \<in> s_id ` set (get_all_sessions (unhide_session d (s_id s)) False)
       \<and> s_id s \<in> s_id ` set (get_all_sessions (unhide_session d (s_id s)) True))"
proof (intro conjI impI ballI)
  show "hide_session (hide_session d i) i = hide_session d i"
    by (simp add: hide_session_def comp_def)
  show "unhide_session (unhide_session d i) i = unhide_session d i"
    by (simp add: unhide_session_def comp_def)
next
  assume "\<forall>s \<in> set (sessions d). s_id s = i \<longrightarrow> s_is_hidden s = 1"
  then show "hide_session d i = d"
    by (simp add: hide_session_def hide_already_hidden)
next
  assume "\<forall>s \<in> set (sessions d). s_id s = i \<longrightarrow> s_is_hidden s = 0"
  then show "unhide_session d i = d"
    by (simp add: unhide_session_def hide_already_hidden)
next
  fix s assume s: "s \<in> set (sessions d)"
  show "s_id s \<notin> s_id ` set (get_all_sessions (hide_session d (s_id s)) False)"
    by (rule hidden_listing(1) [OF s])
  show "s_id s \<in> s_id ` set (get_all_sessions (hide_session d (s_id s)) True)"
    by (rule hidden_listing(2) [OF s])
  show "s_id s \<in> s_id ` set (get_all_sessions (unhide_session d (s_id s)) False)"
    by (rule visible_listing(1) [OF s])
  show "s_id s \<in> s_id ` set (get_all_sessions (unhide_session d (s_id s)) True)"
    by (rule visible_listing(2) [OF s])
qed

lemma decoded_stored:
  "stored_as i row r \<Longrightarrow>
   o_strengths (decoded row) = get_list (d_strengths r)
   \<and> o_weaknesses (decoded row) = get_list (d_weaknesses r)"
  by (simp add: stored_as_def decoded_def loads_dumps)

lemma decoded_stored_rows:
  "list_all2 (stored_as i) rows rs \<Longrightarrow>
   map o_strengths (map decoded rows) = map (\<lambda>r. get_list (d_strengths r)) rs
   \<and> map o_weaknesses (map decoded rows) = map (\<lambda>r. get_list (d_weaknesses r)) rs"
  by (induction rule: list_all2_induct) (simp_all add: decoded_stored)

lemma encoded_decoded:
  "encoded_list col \<Longrightarrow> json_dumps_list (projr (json_loads_list col)) = col"
  by (cases "json_loads_list col") (simp_all add: encoded_list_def)

text \<open>
  Claim C6. Reading a session right after \<open>save_session\<close> wrote it returns, for each
  record and in the order supplied, the strengths and weaknesses as they were (the
  empty list for a missing field): the rows that both read paths select decode to
  these lists, \<open>get_session_results\<close> returns them and \<open>get_top_candidates\<close> returns
  the first of them, for arguments that SQLite can hold; the columns hold their
  encodings. After every sequence of store operations both read paths decode every
  row they select, and encoding a decoded list gives the stored column back.
\<close>

theorem collections_round_trip:
  "(\<forall>d' i. save_session (run ops) now jt co rs = Inr (d', i) \<longrightarrow>
      (\<exists>outs. decode_rows (select_results d' i) = Inr outs
          \<and> map o_strengths outs = map (\<lambda>r. get_list (d_strengths r)) rs
          \<and> map o_weaknesses outs = map (\<lambda>r. get_list (d_weaknesses r)) rs
          \<and> (sqlite_int i \<longrightarrow> (\<exists>s. get_session_results d' i = Inr (s, outs)))
          \<and> (sqlite_int i \<and> sqlite_int n \<longrightarrow>
                get_top_candidates d' i n = Inr (sql_limit n outs)))
      \<and> map r_strengths (rows_of d' i) = map (\<lambda>r. json_dumps_list (get_list (d_strengths r))) rs
      \<and> map r_weaknesses (rows_of d' i) = map (\<lambda>r. json_dumps_list (get_list (d_weaknesses r))) rs)
   \<and> (\<forall>s \<in> set (sessions (run ops)). sqlite_int (s_id s) \<longrightarrow>
        get_session_results (run ops) (s_id s) = Inr (s, map decoded (rows_of (run ops) (s_id s))))
   \<and> decode_rows (sql_limit n (select_results (run ops) j))
        = Inr (map decoded (sql_limit n (select_results (run ops) j)))
   \<and> (sqlite_int j \<and> sqlite_int n \<longrightarrow>
        get_top_candidates (run ops) j n = Inr (map decoded (sql_limit n (select_results (run ops) j))))
   \<and> (\<forall>r \<in> set (results (run ops)).
        json_dumps_list (o_strengths (decoded r)) = r_strengths r
        \<and> json_dumps_list (o_weaknesses (decoded r)) = r_weaknesses r)"
proof (intro conjI allI impI ballI)
  fix d' i assume save: "save_session (run ops) now jt co rs = Inr (d', i)"
  note w = wf_db_save_session [OF wf_db_run save]
  have "sessions d' = sessions (run ops) @
          [\<lparr> s_id = i, s_job_title = jt, s_company = co, s_timestamp = now,
             s_is_hidden = 0, s_total_candidates = length rs \<rparr>]"
    using save_session_Inr [OF save] by simp
  then have "\<lparr> s_id = i, s_job_title = jt, s_company = co, s_timestamp = now,
             s_is_hidden = 0, s_total_candidates = length rs \<rparr> \<in> set (sessions d')"
    by simp
  then obtain s where s: "s \<in> set (sessions d')" and i: "s_id s = i"
    by force
  have sel: "select_results d' i = rows_of d' i"
    using select_results_wf [OF w(1) s] i by simp
  have dec: "decode_rows (select_results d' i) = Inr (map decoded (rows_of d' i))"
    using decode_limit_wf [OF w(1), of "- 1" i] sel by (simp add: sql_limit_def)
  have g: "sqlite_int i \<longrightarrow> (\<exists>s. get_session_results d' i = Inr (s, map decoded (rows_of d' i)))"
    using get_session_results_wf [OF w(1) s] i by auto
  have t: "sqlite_int i \<and> sqlite_int n \<longrightarrow>
      get_top_candidates d' i n = Inr (sql_limit n (map decoded (rows_of d' i)))"
    using get_top_candidates_wf [OF w(1), of i n] sel by (simp add: sql_limit_map)
  show "\<exists>outs. decode_rows (select_results d' i) = Inr outs
          \<and> map o_strengths outs = map (\<lambda>r. get_list (d_strengths r)) rs
          \<and> map o_weaknesses outs = map (\<lambda>r. get_list (d_weaknesses r)) rs
          \<and> (sqlite_int i \<longrightarrow> (\<exists>s. get_session_results d' i = Inr (s, outs)))
          \<and> (sqlite_int i \<and> sqlite_int n \<longrightarrow>
                get_top_candidates d' i n = Inr (sql_limit n outs))"
    using dec g t decoded_stored_rows [OF w(4)] by blast
  show "map r_strengths (rows_of d' i) = map (\<lambda>r. json_dumps_list (get_list (d_strengths r))) rs"
    using stored_rows_columns [OF w(4)] by simp
  show "map r_weaknesses (rows_of d' i) = map (\<lambda>r. json_dumps_list (get_list (d_weaknesses r))) rs"
    using stored_rows_columns [OF w(4)] by simp
next
  fix s assume "s \<in> set (sessions (run ops))" and "sqlite_int (s_id s)"
  then show "get_session_results (run ops) (s_id s)
      = Inr (s, map decoded (rows_of (run ops) (s_id s)))"
    by (rule get_session_results_wf [OF wf_db_run])
next
  show "decode_rows (sql_limit n (select_results (run ops) j))
      = Inr (map decoded (sql_limit n (select_results (run ops) j)))"
    by (rule decode_limit_wf [OF wf_db_run])
next
  assume "sqlite_int j \<and> sqlite_int n"
  then show "get_top_candidates (run ops) j n
      = Inr (map decoded (sql_limit n (select_results (run ops) j)))"
    by (simp add: get_top_candidates_wf [OF wf_db_run])
next
  fix r assume "r \<in> set (results (run ops))"
  then have e: "encoded_list (r_strengths r) \<and> encoded_list (r_weaknesses r)"
    using wf_db_run [of ops] by (simp add: wf_db_def)
  show "json_dumps_list (o_strengths (decoded r)) = r_strengths r"
    using e by (simp add: decoded_def encoded_decoded)
  show "json_dumps_list (o_weaknesses (decoded r)) = r_weaknesses r"
    using e by (simp add: decoded_def encoded_decoded)
qed

lemma take_ranks: "take m [1 ..< Suc k] = [1 ..< Suc (min m k)]"
proof (cases "m \<le> k")
  case True
  then have "take m [1 ..< Suc k] = [1 ..< 1 + m]"
    by (intro take_upt) simp
  then show ?thesis
    using True by (simp add: min_def)
next
  case False
  then show ?thesis
    by (simp add: min_def)
qed

text \<open>
  Claim C7, as amended. For every session row of a store reached by store
  operations, with \<open>k\<close> results, and every \<open>n\<close> that SQLite can hold (a signed 64-bit
  integer, as the id is): \<open>get_session_results\<close> returns the \<open>k\<close> records with the
  persisted ranks 1 to \<open>k\<close> in this order, and \<open>get_top_candidates\<close> returns, without
  an error, the first \<open>n\<close> of them when \<open>0 \<le> n\<close> (all \<open>k\<close> when \<open>n\<close> exceeds \<open>k\<close>, none
  when \<open>n\<close> is 0) and all \<open>k\<close> when \<open>n\<close> is negative. The order is that of the stored
  rank; no score is read. For an \<open>n\<close> outside the range \<open>get_top_candidates\<close> raises
  \<open>OverflowError\<close>.
\<close>

theorem top_candidates_by_rank:
  "(\<forall>s \<in> set (sessions (run ops)). sqlite_int (s_id s) \<and> sqlite_int n \<longrightarrow>
      (\<exists>outs. get_session_results (run ops) (s_id s) = Inr (s, outs)
         \<and> length outs = s_total_candidates s
         \<and> map o_rank outs = [1 ..< Suc (s_total_candidates s)]
         \<and> get_top_candidates (run ops) (s_id s) n
             = Inr (if n < 0 then outs else take (nat n) outs)
         \<and> (\<exists>top. get_top_candidates (run ops) (s_id s) n = Inr top
               \<and> map o_rank top =
                   (if n < 0 then [1 ..< Suc (s_total_candidates s)]
                    else [1 ..< Suc (min (nat n) (s_total_candidates s))]))))
   \<and> (\<not> sqlite_int n \<longrightarrow> get_top_candidates d i n = Inl OverflowError)"
proof (intro conjI ballI impI)
  fix s assume s: "s \<in> set (sessions (run ops))"
    and range: "sqlite_int (s_id s) \<and> sqlite_int n"
  let ?outs = "map decoded (rows_of (run ops) (s_id s))"
  have wf: "wf_db (run ops)"
    by (rule wf_db_run)
  have g: "get_session_results (run ops) (s_id s) = Inr (s, ?outs)"
    using range by (simp add: get_session_results_wf [OF wf s])
  have ranks: "map r_rank (rows_of (run ops) (s_id s)) = [1 ..< Suc (s_total_candidates s)]"
    using wf s by (simp add: wf_db_def)
  have "map o_rank ?outs = map r_rank (rows_of (run ops) (s_id s))"
    by (simp add: decoded_def comp_def)
  then have r: "map o_rank ?outs = [1 ..< Suc (s_total_candidates s)]"
    using ranks by simp
  then have "length (map o_rank ?outs) = length [1 ..< Suc (s_total_candidates s)]"
    by (rule arg_cong)
  then have l: "length ?outs = s_total_candidates s"
    by simp
  have "get_top_candidates (run ops) (s_id s) n
      = Inr (map decoded (sql_limit n (select_results (run ops) (s_id s))))"
    using range by (simp add: get_top_candidates_wf [OF wf])
  then have t: "get_top_candidates (run ops) (s_id s) n = Inr (if n < 0 then ?outs else take (nat n) ?outs)"
    using select_results_wf [OF wf s]
    by (simp add: sql_limit_def take_map)
  have "map o_rank (take (nat n) ?outs) = take (nat n) (map o_rank ?outs)"
    by (rule take_map [symmetric])
  then have "map o_rank (take (nat n) ?outs) = [1 ..< Suc (min (nat n) (s_total_candidates s))]"
    unfolding r by (simp only: take_ranks)
  then have "map o_rank (if n < 0 then ?outs else take (nat n) ?outs) =
      (if n < 0 then [1 ..< Suc (s_total_candidates s)]
       else [1 ..< Suc (min (nat n) (s_total_candidates s))])"
    using r by (simp only: if_distrib [of "map o_rank"] split: if_splits)
  then show "\<exists>outs. get_session_results (run ops) (s_id s) = Inr (s, outs)
         \<and> length outs = s_total_candidates s
         \<and> map o_rank outs = [1 ..< Suc (s_total_candidates s)]
         \<and> get_top_candidates (run ops) (s_id s) n
             = Inr (if n < 0 then outs else take (nat n) outs)
         \<and> (\<exists>top. get_top_candidates (run ops) (s_id s) n = Inr top
               \<and> map o_rank top =
                   (if n < 0 then [1 ..< Suc (s_total_candidates s)]
                    else [1 ..< Suc (min (nat n) (s_total_candidates s))]))"
    using g l r t by blast
next
  assume "\<not> sqlite_int n"
  then show "get_top_candidates d i n = Inl OverflowError"
    by (simp add: get_top_candidates_def)
qed

subsection \<open>The store on example data\<close>

lemma engineer_saved:
  "save_session (run []) 100 ''Engineer'' ''Acme'' [ann, bob] = Inr (run engineer_run, 1)"
  by code_simp

lemma engineer_listed: "engineer_row \<in> set (sessions (run engineer_run))"
  by code_simp

lemma engineer_id: "s_id engineer_row = 1" and engineer_total: "s_total_candidates engineer_row = 2"
  by (simp_all add: engineer_row_def)

lemma nameless_refused:
  "save_session (run engineer_run) 200 ''Analyst'' ''Acme'' [ann, nameless] = Inl IntegrityError"
  by code_simp

theorem create_session_all_or_nothing_witness:
  "engineer_row \<in> set (sessions (run engineer_run))
   \<and> length (rows_of (run engineer_run) (s_id engineer_row)) = 2
   \<and> save_session (run []) 100 ''Engineer'' ''Acme'' [ann, bob] = Inr (run engineer_run, 1)
   \<and> run ([] @ [SaveSession 100 ''Engineer'' ''Acme'' [ann, bob]]) = run engineer_run
   \<and> filter (\<lambda>s. s_id s = 1) (sessions (run engineer_run)) = [engineer_row]
   \<and> map r_rank (rows_of (run engineer_run) 1) = [1, 2]
   \<and> map r_candidate_name (rows_of (run engineer_run) 1) = [''Ann'', ''Bob'']
   \<and> save_session (run engineer_run) 200 ''Analyst'' ''Acme'' [ann, nameless] = Inl IntegrityError
   \<and> run (engineer_run @ [SaveSession 200 ''Analyst'' ''Acme'' [ann, nameless]]) = run engineer_run"
proof -
  note t1 = create_session_all_or_nothing [of engineer_run 200 "''Analyst''" "''Acme''" "[ann, nameless]"]
  note t0 = create_session_all_or_nothing [of "[]" 100 "''Engineer''" "''Acme''" "[ann, bob]"]
  have a: "length (rows_of (run engineer_run) (s_id engineer_row)) = 2"
    using t1 [THEN conjunct1, rule_format, OF engineer_listed] by (simp add: engineer_total)
  note s = t0 [THEN conjunct2, THEN conjunct1, rule_format, OF engineer_saved]
  have b: "run ([] @ [SaveSession 100 ''Engineer'' ''Acme'' [ann, bob]]) = run engineer_run"
    using s by blast
  have c: "filter (\<lambda>s. s_id s = 1) (sessions (run engineer_run)) = [engineer_row]"
    using s by (simp add: engineer_row_def)
  have "map r_rank (rows_of (run engineer_run) 1) = [1 ..< Suc (length [ann, bob])]"
    using s by blast
  moreover have "[1 ..< Suc (length [ann, bob])] = [1, 2]"
    by code_simp
  ultimately have d: "map r_rank (rows_of (run engineer_run) 1) = [1, 2]"
    by simp
  have e: "map r_candidate_name (rows_of (run engineer_run) 1) = [''Ann'', ''Bob'']"
    by code_simp
  have f: "run (engineer_run @ [SaveSession 200 ''Analyst'' ''Acme'' [ann, nameless]])
      = run engineer_run"
    using t1 [THEN conjunct2, THEN conjunct2, THEN conjunct1, rule_format, OF nameless_refused] .
  show ?thesis
    using engineer_listed a engineer_saved b c d e nameless_refused f by blast
qed

lemma sqlite_int_examples:
  "sqlite_int 0" "sqlite_int 1" "sqlite_int 5" "sqlite_int 7" "sqlite_int (- 3)"
  "sqlite_int 9223372036854775807" "sqlite_int (- 9223372036854775808)"
  "\<not> sqlite_int 9223372036854775808" "\<not> sqlite_int (- 9223372036854775809)"
  by (simp_all add: sqlite_int_def)

theorem no_orphan_results_witness:
  "hd (results (run engineer_run)) \<in> set (results (run engineer_run))
   \<and> (\<exists>s \<in> set (sessions (run engineer_run)).
         s_id s = r_session_id (hd (results (run engineer_run))))
   \<and> save_session (run []) 100 ''Engineer'' ''Acme'' [ann, bob] = Inr (run engineer_run, 1)
   \<and> (\<exists>s new. sessions (run engineer_run) = sessions (run []) @ [s] \<and> s_id s = 1
         \<and> results (run engineer_run) = results (run []) @ new \<and> length new = length [ann, bob]
         \<and> list_all (\<lambda>r. r_session_id r = 1) new)
   \<and> map r_session_id (results (run engineer_run)) = [1, 1]
   \<and> sqlite_int 1
   \<and> (\<exists>d'. delete_session (run engineer_run) 1 = Inr d'
         \<and> rows_of d' 1 = [] \<and> 1 \<notin> s_id ` set (sessions d')
         \<and> results d' = [] \<and> sessions d' = [])"
proof -
  note t = no_orphan_results [of "[]" 100 "''Engineer''" "''Acme''" "[ann, bob]"]
  note u = no_orphan_results [where ops = engineer_run and j = 1 and d = "run engineer_run"]
  have a: "hd (results (run engineer_run)) \<in> set (results (run engineer_run))"
    by code_simp
  have b: "\<exists>s \<in> set (sessions (run engineer_run)).
         s_id s = r_session_id (hd (results (run engineer_run)))"
    using u [THEN conjunct1, rule_format, OF a] .
  have c: "\<exists>s new. sessions (run engineer_run) = sessions (run []) @ [s] \<and> s_id s = 1
         \<and> results (run engineer_run) = results (run []) @ new \<and> length new = length [ann, bob]
         \<and> list_all (\<lambda>r. r_session_id r = 1) new"
    using t [THEN conjunct2, THEN conjunct1, rule_format, OF engineer_saved]
    by (simp only: list_all_iff)
  have d: "map r_session_id (results (run engineer_run)) = [1, 1]"
    by code_simp
  have r: "sqlite_int 1"
    by (rule sqlite_int_examples)
  from u [THEN conjunct2, THEN conjunct2, THEN conjunct1, rule_format, OF r]
  obtain d' where del: "delete_session (run engineer_run) 1 = Inr d'" ..
  have gone: "rows_of d' 1 = [] \<and> 1 \<notin> s_id ` set (sessions d')"
    using u [THEN conjunct2, THEN conjunct2, THEN conjunct2, THEN conjunct1, rule_format, OF del] .
  have "delete_session (run engineer_run) 1
      = Inr \<lparr> sessions = [], results = [], sessions_seq = 1, results_seq = 2 \<rparr>"
    by code_simp
  then have e: "results d' = [] \<and> sessions d' = []"
    using del by simp
  show ?thesis
    using a b engineer_saved c d r del gone e by blast
qed

theorem get_after_delete_not_found_witness:
  "sqlite_int 7
   \<and> 7 \<notin> s_id ` set (sessions (run engineer_run))
   \<and> get_session_results (run engineer_run) 7 = Inl TypeError
   \<and> delete_session (run engineer_run) 7 = Inr (run engineer_run)
   \<and> sqlite_int 1
   \<and> 1 \<in> s_id ` set (sessions (run engineer_run))
   \<and> length (rows_of (run engineer_run) 1) = 2
   \<and> (\<exists>d'. delete_session (run engineer_run) 1 = Inr d'
         \<and> get_session_results d' 1 = Inl TypeError
         \<and> rows_of d' 1 = []
         \<and> delete_session d' 1 = Inr d')
   \<and> \<not> sqlite_int 9223372036854775808
   \<and> get_session_results (run engineer_run) 9223372036854775808 = Inl OverflowError
   \<and> delete_session (run engineer_run) 9223372036854775808 = Inl OverflowError
   \<and> run (engineer_run @ [DeleteSession 9223372036854775808]) = run engineer_run"
proof -
  note t = get_after_delete_not_found [of 7 "run engineer_run" engineer_run]
  note u = get_after_delete_not_found [of 1 "run engineer_run" engineer_run]
  note v = get_after_delete_not_found [of 9223372036854775808 "run engineer_run" engineer_run]
  have r7: "sqlite_int 7" and r1: "sqlite_int 1" and big: "\<not> sqlite_int 9223372036854775808"
    by (rule sqlite_int_examples)+
  have a: "7 \<notin> s_id ` set (sessions (run engineer_run))"
    by code_simp
  have b: "get_session_results (run engineer_run) 7 = Inl TypeError"
    using t r7 a by blast
  have c: "delete_session (run engineer_run) 7 = Inr (run engineer_run)"
    using t r7 a by blast
  have d: "1 \<in> s_id ` set (sessions (run engineer_run))"
    by code_simp
  have e: "length (rows_of (run engineer_run) 1) = 2"
    by code_simp
  have f: "\<exists>d'. delete_session (run engineer_run) 1 = Inr d'
         \<and> get_session_results d' 1 = Inl TypeError
         \<and> rows_of d' 1 = []
         \<and> delete_session d' 1 = Inr d'"
    using u r1 by blast
  have g: "get_session_results (run engineer_run) 9223372036854775808 = Inl OverflowError
      \<and> delete_session (run engineer_run) 9223372036854775808 = Inl OverflowError
      \<and> run (engineer_run @ [DeleteSession 9223372036854775808]) = run engineer_run"
    using v big by blast
  show ?thesis
    using r7 a b c r1 d e f big g by blast
qed

text \<open>
  Claim C4, counterexample. The id \<open>2\<^sup>6\<^sup>3\<close> has no session row in the store that holds
  the one saved session; \<open>delete_session\<close> on it is not a silent step without effect:
  it raises \<open>OverflowError\<close>, and so does \<open>get_session_results\<close>.
\<close>

theorem delete_unknown_id_counterexample:
  "9223372036854775808 \<notin> s_id ` set (sessions (run engineer_run))
   \<and> delete_session (run engineer_run) 9223372036854775808 = Inl OverflowError
   \<and> get_session_results (run engineer_run) 9223372036854775808 = Inl OverflowError"
proof -
  have "9223372036854775808 \<notin> s_id ` set (sessions (run engineer_run))"
    by code_simp
  then show ?thesis
    by (simp add: delete_session_def get_session_results_def sqlite_int_def)
qed

theorem hide_unhide_toggle_witness:
  "engineer_row \<in> set (sessions (run engineer_run))
   \<and> 1 \<notin> s_id ` set (get_all_sessions (hide_session (run engineer_run) 1) False)
   \<and> 1 \<in> s_id ` set (get_all_sessions (hide_session (run engineer_run) 1) True)
   \<and> 1 \<in> s_id ` set (get_all_sessions (unhide_session (hide_session (run engineer_run) 1) 1) False)
   \<and> 1 \<in> s_id ` set (get_all_sessions (unhide_session (hide_session (run engineer_run) 1) 1) True)
   \<and> map s_is_hidden (sessions (hide_session (run engineer_run) 1)) = [1]
   \<and> hide_session (hide_session (run engineer_run) 1) 1 = hide_session (run engineer_run) 1
   \<and> unhide_session (run engineer_run) 1 = run engineer_run
   \<and> hide_session (run engineer_run) 7 = run engineer_run"
proof -
  note t = hide_unhide_toggle [of "run engineer_run" 1]
  have l: "\<forall>s \<in> set (sessions (run engineer_run)).
         s_id s \<notin> s_id ` set (get_all_sessions (hide_session (run engineer_run) (s_id s)) False)
       \<and> s_id s \<in> s_id ` set (get_all_sessions (hide_session (run engineer_run) (s_id s)) True)"
    using t by blast
  have a: "1 \<notin> s_id ` set (get_all_sessions (hide_session (run engineer_run) 1) False)
      \<and> 1 \<in> s_id ` set (get_all_sessions (hide_session (run engineer_run) 1) True)"
    using l [rule_format, OF engineer_listed, unfolded engineer_id] .
  have hidden_row: "engineer_row \<lparr> s_is_hidden := 1 \<rparr>
      \<in> set (sessions (hide_session (run engineer_run) 1))"
    by code_simp
  have hidden_id: "s_id (engineer_row \<lparr> s_is_hidden := 1 \<rparr>) = 1"
    by (simp add: engineer_row_def)
  have m: "\<forall>s \<in> set (sessions (hide_session (run engineer_run) 1)).
         s_id s \<in> s_id ` set (get_all_sessions
             (unhide_session (hide_session (run engineer_run) 1) (s_id s)) False)
       \<and> s_id s \<in> s_id ` set (get_all_sessions
             (unhide_session (hide_session (run engineer_run) 1) (s_id s)) True)"
    using hide_unhide_toggle [of "hide_session (run engineer_run) 1" 1] by blast
  have b: "1 \<in> s_id ` set (get_all_sessions
             (unhide_session (hide_session (run engineer_run) 1) 1) False)
      \<and> 1 \<in> s_id ` set (get_all_sessions
             (unhide_session (hide_session (run engineer_run) 1) 1) True)"
    using m [rule_format, OF hidden_row, unfolded hidden_id] .
  have c: "map s_is_hidden (sessions (hide_session (run engineer_run) 1)) = [1]"
    by code_simp
  have d: "hide_session (hide_session (run engineer_run) 1) 1 = hide_session (run engineer_run) 1"
    using t by blast
  have v: "\<forall>s \<in> set (sessions (run engineer_run)). s_id s = 1 \<longrightarrow> s_is_hidden s = 0"
    by code_simp
  have e: "unhide_session (run engineer_run) 1 = run engineer_run"
    using t v by blast
  have n: "\<forall>s \<in> set (sessions (run engineer_run)). s_id s = 7 \<longrightarrow> s_is_hidden s = 1"
    by code_simp
  have f: "hide_session (run engineer_run) 7 = run engineer_run"
    using hide_unhide_toggle [of "run engineer_run" 7] n by blast
  show ?thesis
    using engineer_listed a b c d e f by blast
qed


theorem collections_round_trip_witness:
  "save_session (run []) 100 ''Engineer'' ''Acme'' [ann, bob] = Inr (run engineer_run, 1)
   \<and> sqlite_int 1
   \<and> (\<exists>s outs. get_session_results (run engineer_run) 1 = Inr (s, outs)
         \<and> map o_strengths outs = [[''python'', ''sql''], []]
         \<and> map o_weaknesses outs = [[], [''no degree'']]
         \<and> get_top_candidates (run engineer_run) 1 1 = Inr (take 1 outs))
   \<and> map r_weaknesses (rows_of (run engineer_run) 1)
        = [''[]'', ''['' @ quoted ''no degree'' @ '']'']
   \<and> engineer_row \<in> set (sessions (run engineer_run))
   \<and> get_session_results (run engineer_run) 1
        = Inr (engineer_row, map decoded (rows_of (run engineer_run) 1))
   \<and> get_top_candidates (run engineer_run) 1 1
        = Inr (map decoded (sql_limit 1 (select_results (run engineer_run) 1)))
   \<and> hd (results (run engineer_run)) \<in> set (results (run engineer_run))
   \<and> json_dumps_list (o_strengths (decoded (hd (results (run engineer_run)))))
        = r_strengths (hd (results (run engineer_run)))"
proof -
  note t = collections_round_trip [of "[]" 100 "''Engineer''" "''Acme''" "[ann, bob]" 1]
  note u = collections_round_trip [where ops = engineer_run and j = 1 and n = 1]
  note s = t [THEN conjunct1, rule_format, OF engineer_saved]
  have r1: "sqlite_int 1"
    by (rule sqlite_int_examples)
  have r11: "sqlite_int 1 \<and> sqlite_int 1"
    using r1 by simp
  have lists: "map (\<lambda>r. get_list (d_strengths r)) [ann, bob] = [[''python'', ''sql''], []]"
      "map (\<lambda>r. get_list (d_weaknesses r)) [ann, bob] = [[], [''no degree'']]"
    by code_simp+
  have lim: "sql_limit 1 outs = take 1 outs" for outs :: "result_out list"
    by (simp add: sql_limit_def)
  have a: "\<exists>s outs. get_session_results (run engineer_run) 1 = Inr (s, outs)
         \<and> map o_strengths outs = [[''python'', ''sql''], []]
         \<and> map o_weaknesses outs = [[], [''no degree'']]
         \<and> get_top_candidates (run engineer_run) 1 1 = Inr (take 1 outs)"
    using s [THEN conjunct1] r1 unfolding lists lim by auto
  have b: "map r_weaknesses (rows_of (run engineer_run) 1)
        = [''[]'', ''['' @ quoted ''no degree'' @ '']'']"
    by code_simp
  have id1: "sqlite_int (s_id engineer_row)"
    using r1 by (simp add: engineer_id)
  have c: "get_session_results (run engineer_run) 1
        = Inr (engineer_row, map decoded (rows_of (run engineer_run) 1))"
    using u [THEN conjunct2, THEN conjunct1, rule_format, OF engineer_listed id1,
        unfolded engineer_id] .
  have k: "get_top_candidates (run engineer_run) 1 1
        = Inr (map decoded (sql_limit 1 (select_results (run engineer_run) 1)))"
    using u [THEN conjunct2, THEN conjunct2, THEN conjunct2, THEN conjunct1, rule_format, OF r11] .
  have d: "hd (results (run engineer_run)) \<in> set (results (run engineer_run))"
    by code_simp
  have e: "json_dumps_list (o_strengths (decoded (hd (results (run engineer_run)))))
        = r_strengths (hd (results (run engineer_run)))"
    using u [THEN conjunct2, THEN conjunct2, THEN conjunct2, THEN conjunct2, rule_format, OF d]
    by blast
  show ?thesis
    using engineer_saved r1 a b engineer_listed c k d e by blast
qed

theorem top_candidates_by_rank_witness:
  "engineer_row \<in> set (sessions (run engineer_run))
   \<and> sqlite_int (s_id engineer_row) \<and> sqlite_int 1 \<and> sqlite_int 5 \<and> sqlite_int 0
   \<and> sqlite_int (- 3)
   \<and> (\<exists>top. get_top_candidates (run engineer_run) 1 1 = Inr top \<and> map o_rank top = [1])
   \<and> (\<exists>top. get_top_candidates (run engineer_run) 1 5 = Inr top \<and> map o_rank top = [1, 2])
   \<and> (\<exists>top. get_top_candidates (run engineer_run) 1 0 = Inr top \<and> map o_rank top = [])
   \<and> (\<exists>top. get_top_candidates (run engineer_run) 1 (- 3) = Inr top \<and> map o_rank top = [1, 2])
   \<and> map o_candidate_name (projr (get_top_candidates (run engineer_run) 1 1)) = [''Ann'']
   \<and> \<not> sqlite_int 9223372036854775808
   \<and> get_top_candidates (run engineer_run) 1 9223372036854775808 = Inl OverflowError"
proof -
  have r: "(if (1::int) < 0 then [1 ..< Suc (s_total_candidates engineer_row)]
            else [1 ..< Suc (min (nat 1) (s_total_candidates engineer_row))]) = [1]"
      "(if (5::int) < 0 then [1 ..< Suc (s_total_candidates engineer_row)]
            else [1 ..< Suc (min (nat 5) (s_total_candidates engineer_row))]) = [1, 2]"
      "(if (0::int) < 0 then [1 ..< Suc (s_total_candidates engineer_row)]
            else [1 ..< Suc (min (nat 0) (s_total_candidates engineer_row))]) = []"
      "(if (- 3::int) < 0 then [1 ..< Suc (s_total_candidates engineer_row)]
            else [1 ..< Suc (min (nat (- 3)) (s_total_candidates engineer_row))]) = [1, 2]"
    by code_simp+
  have id1: "sqlite_int (s_id engineer_row)"
    by (simp add: engineer_id sqlite_int_examples)
  have h: "sqlite_int (s_id engineer_row) \<and> sqlite_int 1"
      "sqlite_int (s_id engineer_row) \<and> sqlite_int 5"
      "sqlite_int (s_id engineer_row) \<and> sqlite_int 0"
      "sqlite_int (s_id engineer_row) \<and> sqlite_int (- 3)"
    using id1 by (simp_all add: sqlite_int_examples)
  have big: "\<not> sqlite_int 9223372036854775808"
    by (rule sqlite_int_examples)
  have a: "\<exists>top. get_top_candidates (run engineer_run) 1 1 = Inr top \<and> map o_rank top = [1]"
    using top_candidates_by_rank [where ops = engineer_run and n = 1, THEN conjunct1,
        rule_format, OF engineer_listed h(1)]
    unfolding engineer_id r by blast
  have b: "\<exists>top. get_top_candidates (run engineer_run) 1 5 = Inr top \<and> map o_rank top = [1, 2]"
    using top_candidates_by_rank [where ops = engineer_run and n = 5, THEN conjunct1,
        rule_format, OF engineer_listed h(2)]
    unfolding engineer_id r by blast
  have c: "\<exists>top. get_top_candidates (run engineer_run) 1 0 = Inr top \<and> map o_rank top = []"
    using top_candidates_by_rank [where ops = engineer_run and n = 0, THEN conjunct1,
        rule_format, OF engineer_listed h(3)]
    unfolding engineer_id r by blast
  have d: "\<exists>top. get_top_candidates (run engineer_run) 1 (- 3) = Inr top \<and> map o_rank top = [1, 2]"
    using top_candidates_by_rank [where ops = engineer_run and n = "- 3", THEN conjunct1,
        rule_format, OF engineer_listed h(4)]
    unfolding engineer_id r by blast
  have e: "map o_candidate_name (projr (get_top_candidates (run engineer_run) 1 1)) = [''Ann'']"
    by code_simp
  have f: "get_top_candidates (run engineer_run) 1 9223372036854775808 = Inl OverflowError"
    using top_candidates_by_rank [where n = 9223372036854775808 and d = "run engineer_run"
        and i = 1, THEN conjunct2, rule_format, OF big] .
  show ?thesis
    using engineer_listed id1 h a b c d e big f by blast
qed

text \<open>
  Claim C7, counterexample. On the session saved with the two records of Ann and
  Bob: for \<open>n = 2\<^sup>6\<^sup>3\<close> \<open>get_top_candidates\<close> raises \<open>OverflowError\<close>; for \<open>n = 0\<close> it
  returns no record, while for \<open>n = -1\<close> it returns both records, which are neither
  the first \<open>-1\<close> records nor what \<open>n = 0\<close> gives.
\<close>

theorem top_candidates_counterexample:
  "get_top_candidates (run engineer_run) 1 9223372036854775808 = Inl OverflowError
   \<and> map o_candidate_name (projr (get_top_candidates (run engineer_run) 1 0)) = []
   \<and> map o_candidate_name (projr (get_top_candidates (run engineer_run) 1 (- 1)))
        = [''Ann'', ''Bob'']
   \<and> (\<exists>top. get_top_candidates (run engineer_run) 1 (- 1) = Inr top \<and> length top = 2)"
proof -
  have a: "get_top_candidates (run engineer_run) 1 9223372036854775808 = Inl OverflowError"
    by (simp add: get_top_candidates_def sqlite_int_def)
  have b: "map o_candidate_name (projr (get_top_candidates (run engineer_run) 1 0)) = []"
    by code_simp
  have c: "map o_candidate_name (projr (get_top_candidates (run engineer_run) 1 (- 1)))
        = [''Ann'', ''Bob'']"
    by code_simp
  have "get_top_candidates (run engineer_run) 1 (- 1)
      = Inr (map decoded (sql_limit (- 1) (select_results (run engineer_run) 1)))"
    by (simp add: get_top_candidates_wf wf_db_run sqlite_int_def)
  moreover have "length (select_results (run engineer_run) 1) = 2"
    by code_simp
  ultimately have d: "\<exists>top. get_top_candidates (run engineer_run) 1 (- 1) = Inr top \<and> length top = 2"
    by (simp add: sql_limit_def)
  show ?thesis
    using a b c d by blast
qed

end
